theory Spec2Isabelle
  imports Main "HOL-Library.Sublist"
begin

section \<open>JavaScript values, errors and strings\<close>

text \<open>
  The program is a Node script (\<^verbatim>\<open>index.js\<close>) with two modules of functions
  (\<^verbatim>\<open>utils.js\<close>, \<^verbatim>\<open>helpers.js\<close>). A value read from a configuration file is
  whatever \<^verbatim>\<open>JSON.parse\<close> returned; \<^verbatim>\<open>undefined\<close> is \<open>None\<close>. A
  number is kept as the text \<^verbatim>\<open>String(n)\<close> gives for it, which is the only way the
  program looks at one. The properties of an object are listed in the order in which
  \<^verbatim>\<open>Object.assign\<close> visits them, each key once, as \<^verbatim>\<open>JSON.parse\<close> leaves them.
\<close>

datatype json =
    JNull
  | JBool bool
  | JNum string
  | JStr string
  | JArr "json list"
  | JObj "(string \<times> json) list"

type_synonym js_value = "json option"

text \<open>
  A rejected promise or a thrown exception carries an error. Only the \<^verbatim>\<open>code\<close>
  property of a system error is ever inspected (in \<^verbatim>\<open>requireOptional\<close>); a
  \<^verbatim>\<open>SyntaxError\<close> or \<^verbatim>\<open>TypeError\<close> has none.
\<close>

datatype js_error =
    SystemError string
  | SyntaxError
  | TypeError
  | FormatterError string

fun error_code :: "js_error \<Rightarrow> string option" where
  "error_code (SystemError c) = Some c"
| "error_code SyntaxError = None"
| "error_code TypeError = None"
| "error_code (FormatterError m) = None"

text \<open>The character classes of the two regular expressions, and \<^verbatim>\<open>toLowerCase\<close> on them.\<close>

definition upper_AZ :: "char \<Rightarrow> bool" where
  "upper_AZ c = (c \<in> set ''ABCDEFGHIJKLMNOPQRSTUVWXYZ'')"

definition lower_az :: "char \<Rightarrow> bool" where
  "lower_az c = (c \<in> set ''abcdefghijklmnopqrstuvwxyz'')"

definition digit_09 :: "char \<Rightarrow> bool" where
  "digit_09 c = (c \<in> set ''0123456789'')"

definition toLowerCase_char :: "char \<Rightarrow> char" where
  "toLowerCase_char c =
     (case map_of (zip ''ABCDEFGHIJKLMNOPQRSTUVWXYZ'' ''abcdefghijklmnopqrstuvwxyz'') c of
        Some l \<Rightarrow> l
      | None \<Rightarrow> c)"

text \<open>
  \<^verbatim>\<open>toLowerCase\<close> is modelled on ASCII text, where it changes the letters A to Z only.
  Every name that passes the PascalCase test is such a text.
\<close>

definition toLowerCase :: "string \<Rightarrow> string" where
  "toLowerCase s = map toLowerCase_char s"

text \<open>
  \<^verbatim>\<open>String(v)\<close>, as a template literal \<^verbatim>\<open>`${v}`\<close> computes it; \<open>None\<close> when the
  conversion throws a \<^verbatim>\<open>TypeError\<close>. A parsed object inherits \<^verbatim>\<open>toString\<close> from
  \<^verbatim>\<open>Object.prototype\<close>, which gives \<^verbatim>\<open>[object Object]\<close>; when it has a key
  \<^verbatim>\<open>toString\<close> of its own, that value is no function, \<^verbatim>\<open>valueOf\<close> yields no
  primitive either, and the conversion throws. An array joins the conversions of its
  elements, \<^verbatim>\<open>null\<close> elements as the empty string, and throws when one of them throws.
\<close>

fun join_comma :: "string list \<Rightarrow> string" where
  "join_comma [] = []"
| "join_comma [x] = x"
| "join_comma (x # y # ys) = x @ '','' @ join_comma (y # ys)"

fun String_json :: "json \<Rightarrow> string option" where
  "String_json JNull = Some ''null''"
| "String_json (JBool b) = Some (if b then ''true'' else ''false'')"
| "String_json (JNum t) = Some t"
| "String_json (JStr s) = Some s"
| "String_json (JArr xs) =
     map_option join_comma (those (map (\<lambda>x. if x = JNull then Some [] else String_json x) xs))"
| "String_json (JObj kvs) =
     (if ''toString'' \<in> fst ` set kvs then None else Some ''[object Object]'')"

definition String_value :: "js_value \<Rightarrow> js_error + string" where
  "String_value v =
     (case v of
        None \<Rightarrow> Inr ''undefined''
      | Some j \<Rightarrow> (case String_json j of None \<Rightarrow> Inl TypeError | Some t \<Rightarrow> Inr t))"

definition String_name :: "string option \<Rightarrow> string" where
  "String_name v = (case v of None \<Rightarrow> ''undefined'' | Some s \<Rightarrow> s)"

section \<open>utils.js: formatComponentName\<close>

text \<open>
  \<^verbatim>\<open>name.replace(/([a-z0-9])([A-Z])/g, '$1-$2')\<close>: the scan looks for the pattern at
  the current position; on a match it emits the two characters with a hyphen between them
  and resumes after both, otherwise it copies one character and moves on by one.
\<close>

fun replace_lower_upper :: "string \<Rightarrow> string" where
  "replace_lower_upper (a # b # cs) =
     (if (lower_az a \<or> digit_09 a) \<and> upper_AZ b
      then a # CHR ''-'' # b # replace_lower_upper cs
      else a # replace_lower_upper (b # cs))"
| "replace_lower_upper cs = cs"

text \<open>
  The name is a string or \<^verbatim>\<open>undefined\<close> (the first positional argument);
  \<^verbatim>\<open>undefined.replace\<close> throws a \<^verbatim>\<open>TypeError\<close>. The comparison
  \<^verbatim>\<open>caseFormat === 'kebab'\<close> is strict, so only the string itself passes it.
\<close>

definition formatComponentName :: "string option \<Rightarrow> js_value \<Rightarrow> js_error + string option" where
  "formatComponentName name caseFormat =
     (if caseFormat = Some (JStr ''kebab'')
      then (case name of
              None \<Rightarrow> Inl TypeError
            | Some n \<Rightarrow> Inr (Some (toLowerCase (replace_lower_upper n))))
      else Inr name)"

text \<open>
  The specification's wording of the kebab transformation: a hyphen after every position
  where a lowercase letter or digit is immediately followed by an uppercase letter, then
  the whole string in lower case.
\<close>

definition boundary_at :: "string \<Rightarrow> nat \<Rightarrow> bool" where
  "boundary_at s i =
     (Suc i < length s \<and> (lower_az (s ! i) \<or> digit_09 (s ! i)) \<and> upper_AZ (s ! Suc i))"

definition hyphen_at_boundaries :: "string \<Rightarrow> string" where
  "hyphen_at_boundaries s =
     concat (map (\<lambda>i. s ! i # (if boundary_at s i then ''-'' else [])) [0..<length s])"

definition kebab_spec :: "string \<Rightarrow> string" where
  "kebab_spec s = toLowerCase (hyphen_at_boundaries s)"

text \<open>\<^verbatim>\<open>/^[A-Z][a-zA-Z0-9]*$/.test(componentName)\<close> on a string.\<close>

definition test_PascalCase :: "string \<Rightarrow> bool" where
  "test_PascalCase s =
     (case s of
        [] \<Rightarrow> False
      | c # cs \<Rightarrow> upper_AZ c \<and> list_all (\<lambda>d. lower_az d \<or> upper_AZ d \<or> digit_09 d) cs)"

section \<open>The environment of a run\<close>

text \<open>
  What the script obtains from Node, the operating system and its libraries is a parameter
  of the model:
  \<^item> \<open>homedir\<close>, \<open>cwd\<close>: \<^verbatim>\<open>os.homedir()\<close> and \<^verbatim>\<open>process.cwd()\<close>;
  \<^item> \<open>readFile\<close>: the outcome of \<^verbatim>\<open>fs.readFile(path, 'utf-8')\<close>, the text or the
    \<^verbatim>\<open>code\<close> of the system error (\<^verbatim>\<open>ENOENT\<close> when there is no such file);
  \<^item> \<open>JSON_parse\<close>: \<^verbatim>\<open>JSON.parse\<close>, \<open>None\<close> when it throws its \<^verbatim>\<open>SyntaxError\<close>;
  \<^item> \<open>prettifier\<close>: the outcome of \<^verbatim>\<open>buildPrettifier\<close>, which only wraps the
    Prettier library: it rejects, or yields the formatting function;
  \<^item> \<open>module_relative\<close>: the path \<^verbatim>\<open>path.join\<close> builds from the directory of the
    module and a relative location;
  \<^item> \<open>mkdir_refused\<close>: the error code with which the system refuses to create a
    directory at a path (missing parent, permissions), \<open>None\<close> when it does not refuse;
  \<^item> \<open>writeFile_refused\<close>: how the system refuses to write a file at a path, \<open>None\<close>
    when it does not. \<^verbatim>\<open>fs.writeFile\<close> opens the file, which creates or empties it,
    and then writes: the refusal comes at the opening (permissions, missing directory) and
    nothing changes, or at the writing (full disk) after a number of characters, and the
    file is left with those;
  \<^item> \<open>mkdir_before_exit\<close>: whether a directory creation that has been requested takes
    effect when Node ends the process right after the request.
\<close>

datatype write_refusal =
    Open_refused string
  | Write_failed string nat

record env =
  homedir :: string
  cwd :: string
  readFile :: "string \<Rightarrow> string + string"
  JSON_parse :: "string \<Rightarrow> json option"
  prettifier :: "js_error + (string \<Rightarrow> js_error + string)"
  module_relative :: "string \<Rightarrow> string"
  mkdir_refused :: "string \<Rightarrow> string option"
  writeFile_refused :: "string \<Rightarrow> write_refusal option"
  mkdir_before_exit :: bool

section \<open>utils.js: files\<close>

definition readFilePromise :: "env \<Rightarrow> string \<Rightarrow> js_error + string" where
  "readFilePromise e fileLocation =
     (case readFile e fileLocation of
        Inl c \<Rightarrow> Inl (SystemError c)
      | Inr text \<Rightarrow> Inr text)"

definition readFilePromiseRelative :: "env \<Rightarrow> string \<Rightarrow> js_error + string" where
  "readFilePromiseRelative e fileLocation = readFilePromise e (module_relative e fileLocation)"

text \<open>
  \<^verbatim>\<open>requireOptional\<close>: the \<^verbatim>\<open>try\<close> block reads and parses; the \<^verbatim>\<open>catch\<close>
  block rethrows every error whose code is not \<^verbatim>\<open>ENOENT\<close> and otherwise falls off
  the end of the function, which returns \<^verbatim>\<open>undefined\<close>.
\<close>

definition requireOptional :: "env \<Rightarrow> string \<Rightarrow> js_error + js_value" where
  "requireOptional e filePath =
     (case (case readFilePromise e filePath of
              Inl err \<Rightarrow> Inl err
            | Inr text \<Rightarrow> (case JSON_parse e text of
                              None \<Rightarrow> Inl SyntaxError
                            | Some v \<Rightarrow> Inr v)) of
        Inl err \<Rightarrow> (if error_code err \<noteq> Some ''ENOENT'' then Inl err else Inr None)
      | Inr v \<Rightarrow> Inr (Some v))"

text \<open>
  The file system the script changes: the directories and the files with their contents,
  each under the path the script names it by (\<^verbatim>\<open>path.resolve\<close> gives the absolute
  name of the same object, so \<^verbatim>\<open>fs.existsSync(path.resolve(p))\<close> asks whether
  \<open>p\<close> exists). A refused directory creation changes nothing; a failed write returns
  the error together with the file system it leaves.
\<close>

record fs_state =
  dirs :: "string set"
  files :: "string \<Rightarrow> string option"

definition existsSync :: "fs_state \<Rightarrow> string \<Rightarrow> bool" where
  "existsSync s p = (p \<in> dirs s \<or> files s p \<noteq> None)"

definition fs_mkdir :: "env \<Rightarrow> string \<Rightarrow> fs_state \<Rightarrow> js_error + fs_state" where
  "fs_mkdir e dirPath s =
     (if existsSync s dirPath then Inl (SystemError ''EEXIST'')
      else (case mkdir_refused e dirPath of
              Some c \<Rightarrow> Inl (SystemError c)
            | None \<Rightarrow> Inr (s\<lparr>dirs := insert dirPath (dirs s)\<rparr>)))"

definition fs_writeFile ::
  "env \<Rightarrow> string \<Rightarrow> string \<Rightarrow> fs_state \<Rightarrow> (js_error \<times> fs_state) + fs_state" where
  "fs_writeFile e fileLocation fileContent s =
     (if fileLocation \<in> dirs s then Inl (SystemError ''EISDIR'', s)
      else (case writeFile_refused e fileLocation of
              Some (Open_refused c) \<Rightarrow> Inl (SystemError c, s)
            | Some (Write_failed c n) \<Rightarrow>
                Inl (SystemError c, s\<lparr>files := (files s)(fileLocation \<mapsto> take n fileContent)\<rparr>)
            | None \<Rightarrow> Inr (s\<lparr>files := (files s)(fileLocation \<mapsto> fileContent)\<rparr>)))"

section \<open>helpers.js: getConfig\<close>

text \<open>
  The object that \<^verbatim>\<open>Object.assign\<close> fills: its own properties and its prototype,
  which is \<^verbatim>\<open>Object.prototype\<close> for \<^verbatim>\<open>{}\<close> and can become \<^verbatim>\<open>null\<close> or a parsed
  object or array.
\<close>

datatype prototype =
    Object_prototype
  | Null_prototype
  | Parsed_prototype json

record js_object =
  own :: "string \<Rightarrow> json option"
  proto :: prototype

definition empty_object :: js_object where
  "empty_object = \<lparr>own = Map.empty, proto = Object_prototype\<rparr>"

text \<open>
  \<^verbatim>\<open>Object.assign(target, ...sources)\<close> takes the own enumerable properties of each
  source in turn: none for \<^verbatim>\<open>undefined\<close>, \<^verbatim>\<open>null\<close>, a boolean or a number, the
  indexed characters of a string, the indexed elements of an array, the properties of an
  object.
\<close>

fun decimal :: "nat \<Rightarrow> string" where
  "decimal n =
     (if n < 10 then [''0123456789'' ! n]
      else decimal (n div 10) @ [''0123456789'' ! (n mod 10)])"

fun own_enumerable :: "js_value \<Rightarrow> (string \<times> json) list" where
  "own_enumerable None = []"
| "own_enumerable (Some JNull) = []"
| "own_enumerable (Some (JBool b)) = []"
| "own_enumerable (Some (JNum t)) = []"
| "own_enumerable (Some (JStr s)) = zip (map decimal [0..<length s]) (map (\<lambda>c. JStr [c]) s)"
| "own_enumerable (Some (JArr xs)) = zip (map decimal [0..<length xs]) xs"
| "own_enumerable (Some (JObj kvs)) = kvs"

text \<open>
  Each property is stored with \<^verbatim>\<open>target[key] = value\<close>. For every key but
  \<^verbatim>\<open>__proto__\<close> this creates or updates an own property. For \<^verbatim>\<open>__proto__\<close> it does so
  too when the target already has such an own property, or when the lookup along the
  prototype chain does not arrive at the accessor of \<^verbatim>\<open>Object.prototype\<close>: the
  prototype is \<^verbatim>\<open>null\<close>, or a parsed object that has the key itself. Otherwise the
  setter of that accessor runs: an object, an array or \<^verbatim>\<open>null\<close> becomes the prototype
  of the target, any other value is ignored.
\<close>

fun reaches_proto_setter :: "prototype \<Rightarrow> bool" where
  "reaches_proto_setter Object_prototype = True"
| "reaches_proto_setter Null_prototype = False"
| "reaches_proto_setter (Parsed_prototype (JObj kvs)) = (''__proto__'' \<notin> fst ` set kvs)"
| "reaches_proto_setter (Parsed_prototype v) = True"

definition assign_property :: "string \<times> json \<Rightarrow> js_object \<Rightarrow> js_object" where
  "assign_property kv target =
     (if fst kv = ''__proto__'' \<and> own target ''__proto__'' = None
         \<and> reaches_proto_setter (proto target)
      then (case snd kv of
              JObj kvs \<Rightarrow> target\<lparr>proto := Parsed_prototype (snd kv)\<rparr>
            | JArr xs \<Rightarrow> target\<lparr>proto := Parsed_prototype (snd kv)\<rparr>
            | JNull \<Rightarrow> target\<lparr>proto := Null_prototype\<rparr>
            | _ \<Rightarrow> target)
      else target\<lparr>own := (own target)(fst kv \<mapsto> snd kv)\<rparr>)"

definition Object_assign :: "js_object \<Rightarrow> js_value list \<Rightarrow> js_object" where
  "Object_assign target sources =
     fold (\<lambda>source t. fold assign_property (own_enumerable source) t) sources target"

text \<open>
  Reading a property, \<^verbatim>\<open>object.key\<close>: the own property, else the one inherited from a
  parsed object or array that is the prototype. The built-in properties of
  \<^verbatim>\<open>Object.prototype\<close> and \<^verbatim>\<open>Array.prototype\<close> are functions and no values of the
  model; the script reads the keys \<^verbatim>\<open>lang\<close>, \<^verbatim>\<open>dir\<close> and \<^verbatim>\<open>fileNameCase\<close>, which
  are none of them.
\<close>

fun inherited :: "prototype \<Rightarrow> string \<Rightarrow> js_value" where
  "inherited (Parsed_prototype (JObj kvs)) k = map_of (rev kvs) k"
| "inherited (Parsed_prototype (JArr xs)) k =
     (if k = ''length'' then Some (JNum (decimal (length xs)))
      else map_of (zip (map decimal [0..<length xs]) xs) k)"
| "inherited p k = None"

definition Get :: "js_object \<Rightarrow> string \<Rightarrow> js_value" where
  "Get object k = (case own object k of Some v \<Rightarrow> Some v | None \<Rightarrow> inherited (proto object) k)"

text \<open>The value a source has for a key: the last one listed for it.\<close>

definition own_property :: "js_value \<Rightarrow> string \<Rightarrow> json option" where
  "own_property v k = map_of (rev (own_enumerable v)) k"

definition defaults :: json where
  "defaults =
     JObj [(''lang'', JStr ''js''),
           (''dir'', JStr ''src/components''),
           (''fileNameCase'', JStr ''pascal'')]"

definition global_config_path :: "env \<Rightarrow> string" where
  "global_config_path e = ''/'' @ homedir e @ ''/.new-component-config.json''"

definition local_config_path :: "env \<Rightarrow> string" where
  "local_config_path e = ''/'' @ cwd e @ ''/.new-component-config.json''"

definition getConfig :: "env \<Rightarrow> js_error + js_object" where
  "getConfig e =
     (case requireOptional e (global_config_path e) of
        Inl err \<Rightarrow> Inl err
      | Inr globalOverrides \<Rightarrow>
          (case requireOptional e (local_config_path e) of
             Inl err \<Rightarrow> Inl err
           | Inr localOverrides \<Rightarrow>
               Inr (Object_assign empty_object [Some defaults, globalOverrides, localOverrides])))"

section \<open>index.js: rendering the template\<close>

text \<open>
  The replacement text of \<^verbatim>\<open>String.prototype.replace\<close> is expanded for every match:
  \<^verbatim>\<open>$$\<close> is a dollar sign, \<^verbatim>\<open>$&\<close> the matched text, \<^verbatim>\<open>$`\<close> and \<^verbatim>\<open>$'\<close> the
  text before and after the match. The pattern \<^verbatim>\<open>/COMPONENT_NAME/g\<close> has no group, so
  \<^verbatim>\<open>$1\<close> and the like stay as they are.
\<close>

fun GetSubstitution :: "string \<Rightarrow> string \<Rightarrow> string \<Rightarrow> string \<Rightarrow> string" where
  "GetSubstitution matched before after (c # d # rest) =
     (if c = CHR ''$'' \<and> d = CHR ''$'' then CHR ''$'' # GetSubstitution matched before after rest
      else if c = CHR ''$'' \<and> d = CHR ''&'' then matched @ GetSubstitution matched before after rest
      else if c = CHR ''$'' \<and> d = CHR ''`'' then before @ GetSubstitution matched before after rest
      else if c = CHR ''$'' \<and> d = CHR 0x27 then after @ GetSubstitution matched before after rest
      else c # GetSubstitution matched before after (d # rest))"
| "GetSubstitution matched before after rest = rest"

text \<open>
  \<^verbatim>\<open>template.replace(/COMPONENT_NAME/g, replacement)\<close>: one pass from left to right
  over the template; \<open>before\<close> is the part of the template already passed. A match is
  replaced and the scan resumes behind it, in the template, not in the output.
\<close>

definition COMPONENT_NAME :: string where
  "COMPONENT_NAME = ''COMPONENT_NAME''"

function replace_COMPONENT_NAME :: "string \<Rightarrow> string \<Rightarrow> string \<Rightarrow> string" where
  "replace_COMPONENT_NAME replacement before [] = []"
| "replace_COMPONENT_NAME replacement before (c # cs) =
     (if prefix COMPONENT_NAME (c # cs)
      then GetSubstitution COMPONENT_NAME before (drop (length COMPONENT_NAME) (c # cs)) replacement
           @ replace_COMPONENT_NAME replacement (before @ COMPONENT_NAME)
               (drop (length COMPONENT_NAME) (c # cs))
      else c # replace_COMPONENT_NAME replacement (before @ [c]) cs)"
  by pat_completeness auto

termination
  by (relation "measure (\<lambda>(replacement, before, rest). length rest)")
     (auto simp: COMPONENT_NAME_def)

definition render :: "string \<Rightarrow> string \<Rightarrow> string" where
  "render template name = replace_COMPONENT_NAME name [] template"

section \<open>index.js: the script\<close>

text \<open>
  The command line as Commander hands it over: the positional arguments
  (\<^verbatim>\<open>program.args\<close>) and, for each option, the string given for it if one was given
  and accepted. An option not given has its default, the value of the configuration.
  The argument is declared required (\<^verbatim>\<open><componentName>\<close>): without it
  \<^verbatim>\<open>program.parse\<close> reports the missing argument and ends the process with status 1.
\<close>

record cli =
  args :: "string list"
  flag_lang :: "string option"
  flag_dir :: "string option"
  flag_case :: "string option"

record options =
  opt_lang :: js_value
  opt_dir :: js_value
  opt_case :: js_value

text \<open>\<^verbatim>\<open>const [componentName] = program.args\<close>: the first argument, or \<^verbatim>\<open>undefined\<close>.\<close>

definition componentName :: "cli \<Rightarrow> string option" where
  "componentName c = (case args c of [] \<Rightarrow> None | a # rest \<Rightarrow> Some a)"

definition program_opts :: "js_object \<Rightarrow> cli \<Rightarrow> options" where
  "program_opts config c =
     \<lparr>opt_lang = (case flag_lang c of Some v \<Rightarrow> Some (JStr v) | None \<Rightarrow> Get config ''lang''),
      opt_dir = (case flag_dir c of Some v \<Rightarrow> Some (JStr v) | None \<Rightarrow> Get config ''dir''),
      opt_case = (case flag_case c of Some v \<Rightarrow> Some (JStr v)
                  | None \<Rightarrow> Get config ''fileNameCase'')\<rparr>"

definition fileExtension :: "options \<Rightarrow> string" where
  "fileExtension opts = (if opt_lang opts = Some (JStr ''js'') then ''jsx'' else ''tsx'')"

definition indexExtension :: "options \<Rightarrow> string" where
  "indexExtension opts = (if opt_lang opts = Some (JStr ''js'') then ''js'' else ''ts'')"

text \<open>
  The two template literals that convert an option to a string throw when the conversion
  does; the file name is a string or \<^verbatim>\<open>undefined\<close> and converts always.
\<close>

definition templatePath :: "options \<Rightarrow> js_error + string" where
  "templatePath opts =
     (case String_value (opt_lang opts) of
        Inl err \<Rightarrow> Inl err
      | Inr lang \<Rightarrow> Inr (''./templates/'' @ lang @ ''.jsx''))"

definition componentDir :: "options \<Rightarrow> string option \<Rightarrow> js_error + string" where
  "componentDir opts fileName =
     (case String_value (opt_dir opts) of
        Inl err \<Rightarrow> Inl err
      | Inr dir \<Rightarrow> Inr (dir @ ''/'' @ String_name fileName))"

definition filePath :: "options \<Rightarrow> string \<Rightarrow> string option \<Rightarrow> string" where
  "filePath opts dir fileName = dir @ ''/'' @ String_name fileName @ ''.'' @ fileExtension opts"

definition indexPath :: "options \<Rightarrow> string \<Rightarrow> string" where
  "indexPath opts dir = dir @ ''/index.'' @ indexExtension opts"

definition indexSource :: "string option \<Rightarrow> string" where
  "indexSource fileName = ''export * from './'' @ String_name fileName @ ''';\<newline>''"

text \<open>
  What a run does that can be observed: the error message of Commander, the messages of
  the logging helpers, the error printed by the final \<^verbatim>\<open>catch\<close>, and every directory
  creation and file write that succeeded, in the order in which they happen.
\<close>

datatype event =
    CommanderError string
  | LogIntro
  | LogError string
  | LogItemCompletion string
  | LogConclusion
  | ConsoleError js_error
  | Mkdir string
  | WriteFile string string

text \<open>
  How a run ends: \<open>Crashed\<close> when a top-level \<^verbatim>\<open>await\<close> rejects, a top-level
  statement throws, or Node ends the process because of a rejection that nothing handles;
  \<open>Exited\<close> at \<^verbatim>\<open>process.exit\<close>, with the status; \<open>Caught\<close> when the promise chain
  ends in its \<^verbatim>\<open>catch\<close>; \<open>Created\<close> when the chain runs to \<^verbatim>\<open>logConclusion\<close>.
\<close>

datatype outcome =
    Crashed js_error
  | Exited nat
  | Caught js_error
  | Created

record run =
  outcome :: outcome
  events :: "event list"
  fs_after :: fs_state

definition missing_argument_message :: string where
  "missing_argument_message = ''error: missing required argument 'componentName'' @ [CHR 0x27]"

definition missing_name_message :: string where
  "missing_name_message =
     ''Sorry, you need to specify a name for your component like this: new-component <n>''"

definition not_PascalCase_message :: string where
  \<open>not_PascalCase_message =
     ''Component name must be in PascalCase format. Example: "MyComponent", not "myComponent" or "my-component".''\<close>

definition already_exists_message :: "string \<Rightarrow> string" where
  "already_exists_message dir =
     ''Looks like this component already exists! There's already a component at '' @ dir
     @ ''.\<newline>Please delete this directory and try again.''"

text \<open>
  \<^verbatim>\<open>createParentDirectoryIfNecessary\<close> is an \<^verbatim>\<open>async\<close> function: when
  \<^verbatim>\<open>path.resolve\<close> throws (the directory is not a string) or \<^verbatim>\<open>fs.mkdirSync\<close>
  throws, the promise it returns rejects (\<open>Inl\<close>).
\<close>

definition createParentDirectoryIfNecessary ::
  "env \<Rightarrow> js_value \<Rightarrow> fs_state \<Rightarrow> js_error + (event list \<times> fs_state)" where
  "createParentDirectoryIfNecessary e dir s =
     (case dir of
        Some (JStr d) \<Rightarrow>
          (if \<not> existsSync s d
           then (case fs_mkdir e d s of
                   Inl err \<Rightarrow> Inl err
                 | Inr s' \<Rightarrow> Inr ([Mkdir d], s'))
           else Inr ([], s))
      | _ \<Rightarrow> Inl TypeError)"

text \<open>
  The promise chain that starts with \<^verbatim>\<open>mkDirPromise(componentDir)\<close>. A rejection in
  any step skips the remaining \<^verbatim>\<open>then\<close> steps and reaches the \<^verbatim>\<open>catch\<close>, which
  prints the error. Nothing is undone; a write that fails leaves the file system as
  \<open>fs_writeFile\<close> says.
\<close>

definition caught :: "js_error \<Rightarrow> event list \<Rightarrow> fs_state \<Rightarrow> run" where
  "caught err evs s = \<lparr>outcome = Caught err, events = evs @ [ConsoleError err], fs_after = s\<rparr>"

definition chain ::
  "env \<Rightarrow> (string \<Rightarrow> js_error + string) \<Rightarrow> options \<Rightarrow> string \<Rightarrow> string \<Rightarrow> string
     \<Rightarrow> string option \<Rightarrow> string \<Rightarrow> fs_state \<Rightarrow> run" where
  "chain e prettify opts template_path dir name fileName indexTemplate s =
     (case fs_mkdir e dir s of
        Inl err \<Rightarrow> caught err [] s
      | Inr s1 \<Rightarrow>
     (case readFilePromiseRelative e template_path of
        Inl err \<Rightarrow> caught err [Mkdir dir] s1
      | Inr template \<Rightarrow>
     (let evs1 = [Mkdir dir, LogItemCompletion ''Directory created.'']
      in
     (case prettify (render template name) of
        Inl err \<Rightarrow> caught err evs1 s1
      | Inr text \<Rightarrow>
     (case fs_writeFile e (filePath opts dir fileName) text s1 of
        Inl (err, s1') \<Rightarrow> caught err evs1 s1'
      | Inr s2 \<Rightarrow>
     (let evs2 = evs1 @ [WriteFile (filePath opts dir fileName) text,
                         LogItemCompletion ''Component built and saved to disk.'']
      in
     (case prettify indexTemplate of
        Inl err \<Rightarrow> caught err evs2 s2
      | Inr indexText \<Rightarrow>
     (case fs_writeFile e (indexPath opts dir) indexText s2 of
        Inl (err, s2') \<Rightarrow> caught err evs2 s2'
      | Inr s3 \<Rightarrow>
          \<lparr>outcome = Created,
           events = evs2 @ [WriteFile (indexPath opts dir) indexText,
                            LogItemCompletion ''Index file built and saved to disk.'',
                            LogConclusion],
           fs_after = s3\<rparr>))))))))"

definition crashed :: "js_error \<Rightarrow> fs_state \<Rightarrow> run" where
  "crashed err s = \<lparr>outcome = Crashed err, events = [], fs_after = s\<rparr>"

definition exited :: "string \<Rightarrow> event list \<Rightarrow> fs_state \<Rightarrow> run" where
  "exited message evs s =
     \<lparr>outcome = Exited 0, events = evs @ [LogError message], fs_after = s\<rparr>"

text \<open>
  When the promise of \<^verbatim>\<open>createParentDirectoryIfNecessary\<close> has rejected and the script
  has not exited at the check for an existing component, \<^verbatim>\<open>mkDirPromise\<close> still
  requests the component directory; then the statements of the script are over, no step
  of the chain has run, and Node ends the process because of the rejection that nothing
  handles. Whether the requested directory is there by then is for the environment to say.
\<close>

definition unhandled_rejection :: "env \<Rightarrow> js_error \<Rightarrow> string \<Rightarrow> fs_state \<Rightarrow> run" where
  "unhandled_rejection e err dir s =
     (case (if mkdir_before_exit e then fs_mkdir e dir s else Inl err) of
        Inl err' \<Rightarrow> \<lparr>outcome = Crashed err, events = [LogIntro], fs_after = s\<rparr>
      | Inr s' \<Rightarrow> \<lparr>outcome = Crashed err, events = [LogIntro, Mkdir dir], fs_after = s'\<rparr>)"

text \<open>
  The script from its first statement on, in the order of the source: configuration,
  formatter, command line, file name, the two template literals with an option in them,
  formatted index template, intro, the two checks of the name, the parent directory, the
  check for an existing component, the chain. \<^verbatim>\<open>process.exit\<close> at that check ends
  the process at once, also when the promise of the parent directory has rejected.
\<close>

definition main :: "env \<Rightarrow> cli \<Rightarrow> fs_state \<Rightarrow> run" where
  "main e c s =
     (case getConfig e of
        Inl err \<Rightarrow> crashed err s
      | Inr config \<Rightarrow>
     (case prettifier e of
        Inl err \<Rightarrow> crashed err s
      | Inr prettify \<Rightarrow>
     (if args c = []
      then \<lparr>outcome = Exited 1, events = [CommanderError missing_argument_message],
            fs_after = s\<rparr>
      else
     (let opts = program_opts config c
      in
     (case formatComponentName (componentName c) (opt_case opts) of
        Inl err \<Rightarrow> crashed err s
      | Inr fileName \<Rightarrow>
     (case templatePath opts of
        Inl err \<Rightarrow> crashed err s
      | Inr template_path \<Rightarrow>
     (case componentDir opts fileName of
        Inl err \<Rightarrow> crashed err s
      | Inr dir \<Rightarrow>
     (case prettify (indexSource fileName) of
        Inl err \<Rightarrow> crashed err s
      | Inr indexTemplate \<Rightarrow>
     (case componentName c of
        None \<Rightarrow> exited missing_name_message [LogIntro] s
      | Some name \<Rightarrow>
          if name = [] then exited missing_name_message [LogIntro] s
          else if \<not> test_PascalCase name then exited not_PascalCase_message [LogIntro] s
          else
            (case createParentDirectoryIfNecessary e (opt_dir opts) s of
               Inr (evs, s1) \<Rightarrow>
                 if existsSync s1 dir
                 then exited (already_exists_message dir) (LogIntro # evs) s1
                 else (let r = chain e prettify opts template_path dir name fileName
                                 indexTemplate s1
                       in r\<lparr>events := LogIntro # evs @ events r\<rparr>)
             | Inl err \<Rightarrow>
                 if existsSync s dir
                 then exited (already_exists_message dir) [LogIntro] s
                 else unhandled_rejection e err dir s))))))))))"

section \<open>Notions used to state the properties\<close>



text \<open>The directories created and the files written in a list of events.\<close>

fun made :: "event list \<Rightarrow> string list" where
  "made [] = []"
| "made (Mkdir p # evs) = p # made evs"
| "made (ev # evs) = made evs"

fun written :: "event list \<Rightarrow> (string \<times> string) list" where
  "written [] = []"
| "written (WriteFile p t # evs) = (p, t) # written evs"
| "written (ev # evs) = written evs"

section \<open>Example environments\<close>

definition js_template :: string where
  "js_template = ''function COMPONENT_NAME() {}\<newline>export default COMPONENT_NAME;\<newline>''"

text \<open>No override file, a formatter that returns its input, nothing refused.\<close>

definition plain_env :: env where
  "plain_env =
     \<lparr>homedir = ''/home/me'',
      cwd = ''/work/app'',
      readFile = (\<lambda>p. if p = ''/pkg/src/templates/js.jsx'' then Inr js_template else Inl ''ENOENT''),
      JSON_parse = (\<lambda>t. None),
      prettifier = Inr (\<lambda>t. Inr t),
      module_relative = (\<lambda>loc. ''/pkg/src'' @ tl loc),
      mkdir_refused = (\<lambda>p. None),
      writeFile_refused = (\<lambda>p. None),
      mkdir_before_exit = False\<rparr>"

text \<open>A global override file that sets the language, a local one that sets the directory.\<close>

definition override_env :: env where
  \<open>override_env =
     plain_env
       \<lparr>readFile := (\<lambda>p. if p = ''//home/me/.new-component-config.json'' then Inr ''{"lang":"ts"}''
                         else if p = ''//work/app/.new-component-config.json'' then Inr ''{"dir":"lib"}''
                         else readFile plain_env p),
        JSON_parse := (\<lambda>t. if t = ''{"lang":"ts"}'' then Some (JObj [(''lang'', JStr ''ts'')])
                         else if t = ''{"dir":"lib"}'' then Some (JObj [(''dir'', JStr ''lib'')])
                         else None)\<rparr>\<close>

text \<open>A global override file with a language outside the domain and a key the tool does not know.\<close>

definition unchecked_env :: env where
  \<open>unchecked_env =
     plain_env
       \<lparr>readFile := (\<lambda>p. if p = ''//home/me/.new-component-config.json''
                         then Inr ''{"lang":"python","theme":"dark"}''
                         else readFile plain_env p),
        JSON_parse := (\<lambda>t. if t = ''{"lang":"python","theme":"dark"}''
                         then Some (JObj [(''lang'', JStr ''python''), (''theme'', JStr ''dark'')])
                         else None)\<rparr>\<close>

text \<open>A global override file that is not JSON.\<close>

definition broken_env :: env where
  \<open>broken_env =
     plain_env
       \<lparr>readFile := (\<lambda>p. if p = ''//home/me/.new-component-config.json'' then Inr ''{"lang":''
                         else readFile plain_env p)\<rparr>\<close>



definition only_name :: "string \<Rightarrow> cli" where
  "only_name n = \<lparr>args = [n], flag_lang = None, flag_dir = None, flag_case = None\<rparr>"

definition kebab_name :: "string \<Rightarrow> cli" where
  "kebab_name n = \<lparr>args = [n], flag_lang = None, flag_dir = None, flag_case = Some ''kebab''\<rparr>"

definition no_name :: cli where
  "no_name = \<lparr>args = [], flag_lang = None, flag_dir = None, flag_case = None\<rparr>"

definition project_fs :: fs_state where
  "project_fs = \<lparr>dirs = {''src'', ''src/components''}, files = Map.empty\<rparr>"

definition project_with_Button :: fs_state where
  "project_with_Button =
     \<lparr>dirs = {''src'', ''src/components'', ''src/components/Button''},
      files = [''src/components/Button/Button.jsx'' \<mapsto> ''export const Button = 1;'']\<rparr>"

text \<open>
  A project whose Prettier configuration asks for double quotes, as far as the texts of
  the examples go: the formatter turns every single quote into a double quote.
\<close>

definition double_quote_env :: env where
  "double_quote_env =
     plain_env
       \<lparr>prettifier := Inr (\<lambda>t. Inr (map (\<lambda>ch. if ch = CHR 0x27 then CHR 0x22 else ch) t))\<rparr>"

text \<open>Both override files set the key \<^verbatim>\<open>__proto__\<close>, to a string.\<close>

definition proto_env :: env where
  \<open>proto_env =
     plain_env
       \<lparr>readFile := (\<lambda>p. if p = ''//home/me/.new-component-config.json''
                         then Inr ''{"__proto__":"global"}''
                         else if p = ''//work/app/.new-component-config.json''
                         then Inr ''{"__proto__":"local"}''
                         else readFile plain_env p),
        JSON_parse := (\<lambda>t. if t = ''{"__proto__":"global"}''
                         then Some (JObj [(''__proto__'', JStr ''global'')])
                         else if t = ''{"__proto__":"local"}''
                         then Some (JObj [(''__proto__'', JStr ''local'')])
                         else None)\<rparr>\<close>


text \<open>A local override file that gives an object with an own \<^verbatim>\<open>toString\<close> key for the language.\<close>

definition object_lang_env :: env where
  \<open>object_lang_env =
     plain_env
       \<lparr>readFile := (\<lambda>p. if p = ''//work/app/.new-component-config.json''
                         then Inr ''{"lang":{"toString":1}}''
                         else readFile plain_env p),
        JSON_parse := (\<lambda>t. if t = ''{"lang":{"toString":1}}''
                         then Some (JObj [(''lang'', JObj [(''toString'', JNum ''1'')])])
                         else None)\<rparr>\<close>

text \<open>
  A local override file that gives a number for the directory, in a project that has a
  directory of that name; the same when a directory creation requested right before the
  end of the process takes effect.
\<close>

definition numeric_dir_env :: env where
  \<open>numeric_dir_env =
     plain_env
       \<lparr>readFile := (\<lambda>p. if p = ''//work/app/.new-component-config.json'' then Inr ''{"dir":5}''
                         else readFile plain_env p),
        JSON_parse := (\<lambda>t. if t = ''{"dir":5}'' then Some (JObj [(''dir'', JNum ''5'')])
                         else None)\<rparr>\<close>



definition numeric_with_Button :: fs_state where
  "numeric_with_Button =
     \<lparr>dirs = {''5'', ''5/Button''},
      files = [''5/Button/Button.jsx'' \<mapsto> ''export const Button = 1;'']\<rparr>"


section \<open>Facts about the character classes\<close>

lemma upper_not_lower_digit: "upper_AZ c \<Longrightarrow> \<not> lower_az c \<and> \<not> digit_09 c"
  by (auto simp: upper_AZ_def lower_az_def digit_09_def)

section \<open>The kebab transformation\<close>

lemma boundary_at_Suc: "boundary_at (a # s) (Suc i) = boundary_at s i"
  by (simp add: boundary_at_def)

lemma hyphen_at_boundaries_Cons:
  "hyphen_at_boundaries (a # s) =
     a # (if boundary_at (a # s) 0 then ''-'' else []) @ hyphen_at_boundaries s"
proof -
  have "[0..<length (a # s)] = 0 # map Suc [0..<length s]"
    by (simp add: upt_conv_Cons map_Suc_upt del: upt_Suc)
  then show ?thesis
    by (simp add: hyphen_at_boundaries_def boundary_at_Suc comp_def del: upt_Suc)
qed

text \<open>
  The scan of the regular expression resumes behind the uppercase letter of a match, so it
  never looks at the boundary that starts with that letter. Nothing is lost: an uppercase
  letter is neither a lowercase letter nor a digit, so no boundary starts there.
\<close>

lemma replace_lower_upper_spec: "replace_lower_upper s = hyphen_at_boundaries s"
proof (induction s rule: replace_lower_upper.induct)
  case (1 a b cs)
  show ?case
  proof (cases "(lower_az a \<or> digit_09 a) \<and> upper_AZ b")
    case True
    then have nb: "\<not> boundary_at (b # cs) 0"
      using upper_not_lower_digit [of b] by (simp add: boundary_at_def)
    have b0: "boundary_at (a # b # cs) 0"
      using True by (simp add: boundary_at_def)
    have "hyphen_at_boundaries (a # b # cs) = a # CHR ''-'' # b # hyphen_at_boundaries cs"
      using nb b0
      by (simp add: hyphen_at_boundaries_Cons [of a "b # cs"] hyphen_at_boundaries_Cons [of b cs])
    then show ?thesis
      using 1(1) True by simp
  next
    case False
    then have b0: "\<not> boundary_at (a # b # cs) 0"
      by (simp add: boundary_at_def)
    have "hyphen_at_boundaries (a # b # cs) = a # hyphen_at_boundaries (b # cs)"
      using b0 by (simp add: hyphen_at_boundaries_Cons [of a "b # cs"])
    then show ?thesis
      using 1(2) False by auto
  qed
qed (simp_all add: hyphen_at_boundaries_def boundary_at_def)

lemmas char_class_defs = upper_AZ_def lower_az_def digit_09_def toLowerCase_char_def

lemma kebab_MyComponent:
  "formatComponentName (Some ''MyComponent'') (Some (JStr ''kebab'')) = Inr (Some ''my-component'')"
  by (simp add: formatComponentName_def toLowerCase_def char_class_defs)

lemma kebab_Button:
  "formatComponentName (Some ''Button'') (Some (JStr ''kebab'')) = Inr (Some ''button'')"
  by (simp add: formatComponentName_def toLowerCase_def char_class_defs)

lemma kebab_HTTPServer:
  "formatComponentName (Some ''HTTPServer'') (Some (JStr ''kebab'')) = Inr (Some ''httpserver'')"
  by (simp add: formatComponentName_def toLowerCase_def char_class_defs)

text \<open>
  Claim C1. For every PascalCase name, \<^verbatim>\<open>formatComponentName(name, "kebab")\<close> is the
  name with a hyphen inserted at every boundary where a lowercase letter or digit is
  immediately followed by an uppercase letter, in lower case; \<^verbatim>\<open>MyComponent\<close> gives
  \<^verbatim>\<open>my-component\<close>, \<^verbatim>\<open>Button\<close> gives \<^verbatim>\<open>button\<close>, and a run of uppercase
  letters gets no hyphen inside: \<^verbatim>\<open>HTTPServer\<close> gives \<^verbatim>\<open>httpserver\<close>.
\<close>

theorem formatComponentName_kebab:
  "(test_PascalCase name \<longrightarrow>
      formatComponentName (Some name) (Some (JStr ''kebab'')) = Inr (Some (kebab_spec name)))
   \<and> formatComponentName (Some ''MyComponent'') (Some (JStr ''kebab'')) = Inr (Some ''my-component'')
   \<and> formatComponentName (Some ''Button'') (Some (JStr ''kebab'')) = Inr (Some ''button'')
   \<and> formatComponentName (Some ''HTTPServer'') (Some (JStr ''kebab'')) = Inr (Some ''httpserver'')"
proof -
  have "formatComponentName (Some name) (Some (JStr ''kebab'')) = Inr (Some (kebab_spec name))"
    by (simp add: formatComponentName_def kebab_spec_def replace_lower_upper_spec)
  then show ?thesis
    using kebab_MyComponent kebab_Button kebab_HTTPServer by simp
qed

theorem formatComponentName_kebab_witness:
  "test_PascalCase ''NavBar2D''
   \<and> kebab_spec ''NavBar2D'' = ''nav-bar2-d''
   \<and> formatComponentName (Some ''NavBar2D'') (Some (JStr ''kebab'')) = Inr (Some ''nav-bar2-d'')"
proof -
  have p: "test_PascalCase ''NavBar2D''"
    by (simp add: test_PascalCase_def char_class_defs)
  have k: "kebab_spec ''NavBar2D'' = ''nav-bar2-d''"
    by (simp add: kebab_spec_def hyphen_at_boundaries_def boundary_at_def toLowerCase_def
        char_class_defs upt_rec)
  show ?thesis
    using formatComponentName_kebab [of "''NavBar2D''"] p k by simp
qed

text \<open>
  Claim C10. For every name and every case format other than the exact string
  \<^verbatim>\<open>"kebab"\<close> (\<^verbatim>\<open>"pascal"\<close>, an invalid value, a missing argument),
  \<^verbatim>\<open>formatComponentName\<close> returns the name unchanged and raises no error.
\<close>

theorem formatComponentName_other_case_identity:
  "caseFormat \<noteq> Some (JStr ''kebab'') \<Longrightarrow> formatComponentName name caseFormat = Inr name"
  by (simp add: formatComponentName_def)

theorem formatComponentName_other_case_identity_witness:
  "formatComponentName (Some ''MyComponent'') (Some (JStr ''pascal'')) = Inr (Some ''MyComponent'')
   \<and> formatComponentName (Some ''MyComponent'') (Some (JStr ''KEBAB'')) = Inr (Some ''MyComponent'')
   \<and> formatComponentName (Some ''MyComponent'') (Some (JNum ''7'')) = Inr (Some ''MyComponent'')
   \<and> formatComponentName (Some ''MyComponent'') None = Inr (Some ''MyComponent'')
   \<and> formatComponentName (Some ''not pascal'') (Some (JStr ''snake'')) = Inr (Some ''not pascal'')"
  using formatComponentName_other_case_identity [of "Some (JStr ''pascal'')" "Some ''MyComponent''"]
    formatComponentName_other_case_identity [of "Some (JStr ''KEBAB'')" "Some ''MyComponent''"]
    formatComponentName_other_case_identity [of "Some (JNum ''7'')" "Some ''MyComponent''"]
    formatComponentName_other_case_identity [of None "Some ''MyComponent''"]
    formatComponentName_other_case_identity [of "Some (JStr ''snake'')" "Some ''not pascal''"]
  by simp

section \<open>Configuration resolution\<close>

lemma own_assign_property:
  "k \<noteq> ''__proto__'' \<Longrightarrow>
   own (assign_property kv t) k = (if fst kv = k then Some (snd kv) else own t k)"
  by (auto simp: assign_property_def split: json.splits)

lemma own_fold_assign_property:
  "k \<noteq> ''__proto__'' \<Longrightarrow>
   own (fold assign_property kvs t) k =
     (case map_of (rev kvs) k of Some v \<Rightarrow> Some v | None \<Rightarrow> own t k)"
proof (induction kvs arbitrary: t)
  case Nil
  show ?case by simp
next
  case (Cons kv kvs)
  have "own (fold assign_property (kv # kvs) t) k
        = own (fold assign_property kvs (assign_property kv t)) k"
    by simp
  also have "\<dots> =
     (case map_of (rev kvs) k of Some v \<Rightarrow> Some v | None \<Rightarrow> own (assign_property kv t) k)"
    using Cons.prems by (rule Cons.IH)
  also have "\<dots> =
     (case map_of (rev (kv # kvs)) k of Some v \<Rightarrow> Some v | None \<Rightarrow> own t k)"
    using Cons.prems
    by (cases kv) (auto simp: own_assign_property map_add_def split: option.splits)
  finally show ?case .
qed

lemma own_Object_assign_three:
  "k \<noteq> ''__proto__'' \<Longrightarrow>
   own (Object_assign t [a, b, c]) k =
     (case own_property c k of
        Some v \<Rightarrow> Some v
      | None \<Rightarrow> (case own_property b k of
                   Some v \<Rightarrow> Some v
                 | None \<Rightarrow> (case own_property a k of Some v \<Rightarrow> Some v | None \<Rightarrow> own t k)))"
  unfolding Object_assign_def own_property_def
  by (simp add: own_fold_assign_property split: option.splits)

lemma own_property_defaults:
  "own_property (Some defaults) k =
     [''lang'' \<mapsto> JStr ''js'', ''dir'' \<mapsto> JStr ''src/components'',
      ''fileNameCase'' \<mapsto> JStr ''pascal''] k"
  by (simp add: own_property_def defaults_def)

lemma own_property_None_iff: "own_property v k = None \<longleftrightarrow> k \<notin> fst ` set (own_enumerable v)"
  by (simp add: own_property_def map_of_eq_None_iff)

lemma js_object_eqI: "own x = f \<Longrightarrow> proto x = p \<Longrightarrow> x = \<lparr>own = f, proto = p\<rparr>"
  by (cases x) simp

lemma getConfig_Inr:
  "requireOptional e (global_config_path e) = Inr g \<Longrightarrow>
   requireOptional e (local_config_path e) = Inr l \<Longrightarrow>
   getConfig e = Inr (Object_assign empty_object [Some defaults, g, l])"
  by (simp add: getConfig_def)





text \<open>What the script reads of the configuration are own properties, set by the defaults at least.\<close>

lemma known_keys_own:
  assumes "k = ''lang'' \<or> k = ''dir'' \<or> k = ''fileNameCase''"
  shows "own (Object_assign empty_object [Some defaults, g, l]) k \<noteq> None
     \<and> Get (Object_assign empty_object [Some defaults, g, l]) k
         = own (Object_assign empty_object [Some defaults, g, l]) k"
proof -
  have k: "k \<noteq> ''__proto__''"
    using assms by auto
  have d: "own_property (Some defaults) k \<noteq> None"
    using assms by (auto simp: own_property_defaults)
  have "own (Object_assign empty_object [Some defaults, g, l]) k \<noteq> None"
    using d by (auto simp: own_Object_assign_three [OF k] split: option.splits)
  then show ?thesis
    by (auto simp: Get_def)
qed

lemma defaults_assigned:
  "Object_assign empty_object [Some defaults, None, None]
     = \<lparr>own = [''lang'' \<mapsto> JStr ''js'', ''dir'' \<mapsto> JStr ''src/components'',
               ''fileNameCase'' \<mapsto> JStr ''pascal''],
        proto = Object_prototype\<rparr>"
  by (simp add: Object_assign_def defaults_def assign_property_def empty_object_def)

text \<open>
  Claim C2, as amended. \<^verbatim>\<open>getConfig\<close> merges the sources key by key, a later source
  winning: defaults, then the global override file, then the project-local one; this for
  every key other than \<^verbatim>\<open>__proto__\<close>. The three keys the script reads are own
  properties of the result, so what it reads is the merged value. With a global override
  \<^verbatim>\<open>{lang:"ts"}\<close> and a local override \<^verbatim>\<open>{dir:"lib"}\<close> the result is
  \<^verbatim>\<open>{lang:"ts", dir:"lib", fileNameCase:"pascal"}\<close>.
\<close>

theorem getConfig_later_source_wins:
  assumes "requireOptional e (global_config_path e) = Inr g"
    and "requireOptional e (local_config_path e) = Inr l"
  shows "\<exists>config. getConfig e = Inr config
    \<and> (\<forall>k. k \<noteq> ''__proto__'' \<longrightarrow>
          own config k =
            (case own_property l k of
               Some v \<Rightarrow> Some v
             | None \<Rightarrow> (case own_property g k of
                          Some v \<Rightarrow> Some v
                        | None \<Rightarrow> own_property (Some defaults) k)))
    \<and> (\<forall>k. k = ''lang'' \<or> k = ''dir'' \<or> k = ''fileNameCase'' \<longrightarrow>
          own config k \<noteq> None \<and> Get config k = own config k)
    \<and> (g = Some (JObj [(''lang'', JStr ''ts'')]) \<and> l = Some (JObj [(''dir'', JStr ''lib'')]) \<longrightarrow>
          config = \<lparr>own = [''lang'' \<mapsto> JStr ''ts'', ''dir'' \<mapsto> JStr ''lib'',
                           ''fileNameCase'' \<mapsto> JStr ''pascal''],
                    proto = Object_prototype\<rparr>)"
proof -
  let ?config = "Object_assign empty_object [Some defaults, g, l]"
  have c: "getConfig e = Inr ?config"
    using assms by (rule getConfig_Inr)
  have law: "\<forall>k. k \<noteq> ''__proto__'' \<longrightarrow>
          own ?config k =
            (case own_property l k of
               Some v \<Rightarrow> Some v
             | None \<Rightarrow> (case own_property g k of
                          Some v \<Rightarrow> Some v
                        | None \<Rightarrow> own_property (Some defaults) k))"
    by (simp add: own_Object_assign_three empty_object_def split: option.splits)
  have known: "\<forall>k. k = ''lang'' \<or> k = ''dir'' \<or> k = ''fileNameCase'' \<longrightarrow>
          own ?config k \<noteq> None \<and> Get ?config k = own ?config k"
    using known_keys_own by blast
  have ex: "g = Some (JObj [(''lang'', JStr ''ts'')]) \<and> l = Some (JObj [(''dir'', JStr ''lib'')]) \<longrightarrow>
          ?config = \<lparr>own = [''lang'' \<mapsto> JStr ''ts'', ''dir'' \<mapsto> JStr ''lib'',
                           ''fileNameCase'' \<mapsto> JStr ''pascal''],
                     proto = Object_prototype\<rparr>"
  proof
    assume gl: "g = Some (JObj [(''lang'', JStr ''ts'')]) \<and> l = Some (JObj [(''dir'', JStr ''lib'')])"
    have o: "own ?config = [''lang'' \<mapsto> JStr ''ts'', ''dir'' \<mapsto> JStr ''lib'',
                           ''fileNameCase'' \<mapsto> JStr ''pascal'']"
      by (rule ext) (simp add: gl Object_assign_def defaults_def assign_property_def empty_object_def)
    have p: "proto ?config = Object_prototype"
      by (simp add: gl Object_assign_def defaults_def assign_property_def empty_object_def)
    show "?config = \<lparr>own = [''lang'' \<mapsto> JStr ''ts'', ''dir'' \<mapsto> JStr ''lib'',
                           ''fileNameCase'' \<mapsto> JStr ''pascal''],
                     proto = Object_prototype\<rparr>"
      using o p by (rule js_object_eqI)
  qed
  show ?thesis
    by (rule exI [where x = ?config], intro conjI) (rule c law known ex)+
qed

lemma override_env_global:
  "requireOptional override_env (global_config_path override_env)
     = Inr (Some (JObj [(''lang'', JStr ''ts'')]))"
  by (simp add: requireOptional_def readFilePromise_def global_config_path_def
      override_env_def plain_env_def)

lemma override_env_local:
  "requireOptional override_env (local_config_path override_env)
     = Inr (Some (JObj [(''dir'', JStr ''lib'')]))"
  by (simp add: requireOptional_def readFilePromise_def local_config_path_def
      override_env_def plain_env_def)

theorem getConfig_later_source_wins_witness:
  "getConfig override_env
     = Inr \<lparr>own = [''lang'' \<mapsto> JStr ''ts'', ''dir'' \<mapsto> JStr ''lib'',
                  ''fileNameCase'' \<mapsto> JStr ''pascal''],
           proto = Object_prototype\<rparr>
   \<and> Get \<lparr>own = [''lang'' \<mapsto> JStr ''ts'', ''dir'' \<mapsto> JStr ''lib'',
                 ''fileNameCase'' \<mapsto> JStr ''pascal''],
          proto = Object_prototype\<rparr> ''lang'' = Some (JStr ''ts'')"
proof -
  obtain config where c: "getConfig override_env = Inr config"
    and ex: "config = \<lparr>own = [''lang'' \<mapsto> JStr ''ts'', ''dir'' \<mapsto> JStr ''lib'',
                              ''fileNameCase'' \<mapsto> JStr ''pascal''],
                       proto = Object_prototype\<rparr>"
    and known: "\<forall>k. k = ''lang'' \<or> k = ''dir'' \<or> k = ''fileNameCase'' \<longrightarrow>
          own config k \<noteq> None \<and> Get config k = own config k"
    using getConfig_later_source_wins [OF override_env_global override_env_local] by blast
  have 1: "getConfig override_env
     = Inr \<lparr>own = [''lang'' \<mapsto> JStr ''ts'', ''dir'' \<mapsto> JStr ''lib'',
                  ''fileNameCase'' \<mapsto> JStr ''pascal''],
           proto = Object_prototype\<rparr>"
    using c ex by simp
  have "Get config ''lang'' = own config ''lang''"
    using known by simp
  then have 2: "Get \<lparr>own = [''lang'' \<mapsto> JStr ''ts'', ''dir'' \<mapsto> JStr ''lib'',
                 ''fileNameCase'' \<mapsto> JStr ''pascal''],
          proto = Object_prototype\<rparr> ''lang'' = Some (JStr ''ts'')"
    unfolding ex by simp
  show ?thesis
    by (intro conjI) (rule 1 2)+
qed

text \<open>
  Claim C2 as stated fails at the key \<^verbatim>\<open>__proto__\<close>: when both override files set it
  to a string, the assignment goes to the setter of \<^verbatim>\<open>Object.prototype\<close>, which
  ignores a string, and the result is the defaults alone: the value of the local file is
  nowhere in it.
\<close>

theorem getConfig_proto_key_counterexample:
  "requireOptional proto_env (local_config_path proto_env)
     = Inr (Some (JObj [(''__proto__'', JStr ''local'')]))
   \<and> getConfig proto_env
       = Inr \<lparr>own = [''lang'' \<mapsto> JStr ''js'', ''dir'' \<mapsto> JStr ''src/components'',
                    ''fileNameCase'' \<mapsto> JStr ''pascal''],
             proto = Object_prototype\<rparr>"
proof -
  have g: "requireOptional proto_env (global_config_path proto_env)
     = Inr (Some (JObj [(''__proto__'', JStr ''global'')]))"
    by (simp add: requireOptional_def readFilePromise_def global_config_path_def
        proto_env_def plain_env_def)
  have l: "requireOptional proto_env (local_config_path proto_env)
     = Inr (Some (JObj [(''__proto__'', JStr ''local'')]))"
    by (simp add: requireOptional_def readFilePromise_def local_config_path_def
        proto_env_def plain_env_def)
  have "Object_assign empty_object
          [Some defaults, Some (JObj [(''__proto__'', JStr ''global'')]),
           Some (JObj [(''__proto__'', JStr ''local'')])]
       = \<lparr>own = [''lang'' \<mapsto> JStr ''js'', ''dir'' \<mapsto> JStr ''src/components'',
                  ''fileNameCase'' \<mapsto> JStr ''pascal''],
           proto = Object_prototype\<rparr>"
    by (simp add: Object_assign_def defaults_def assign_property_def empty_object_def)
  then have "getConfig proto_env
       = Inr \<lparr>own = [''lang'' \<mapsto> JStr ''js'', ''dir'' \<mapsto> JStr ''src/components'',
                    ''fileNameCase'' \<mapsto> JStr ''pascal''],
             proto = Object_prototype\<rparr>"
    by (simp add: getConfig_def g l)
  then show ?thesis
    using l by simp
qed








lemma dom_own_Object_assign_three:
  "dom (own (Object_assign t [a, b, c])) - {''__proto__''} =
     (dom (own t) \<union> fst ` set (own_enumerable a) \<union> fst ` set (own_enumerable b)
        \<union> fst ` set (own_enumerable c)) - {''__proto__''}"
proof (rule set_eqI)
  fix k
  show "k \<in> dom (own (Object_assign t [a, b, c])) - {''__proto__''} \<longleftrightarrow>
        k \<in> (dom (own t) \<union> fst ` set (own_enumerable a) \<union> fst ` set (own_enumerable b)
                \<union> fst ` set (own_enumerable c)) - {''__proto__''}"
  proof (cases "k = ''__proto__''")
    case True
    then show ?thesis by simp
  next
    case False
    have n: "\<And>v. (k \<in> fst ` set (own_enumerable v)) = (own_property v k \<noteq> None)"
      by (simp add: own_property_None_iff)
    have "k \<in> dom (own (Object_assign t [a, b, c])) \<longleftrightarrow>
          k \<in> dom (own t) \<or> own_property a k \<noteq> None \<or> own_property b k \<noteq> None
            \<or> own_property c k \<noteq> None"
      by (auto simp: dom_def own_Object_assign_three [OF False] split: option.splits)
    then show ?thesis
      using False by (simp add: n)
  qed
qed

lemma dom_defaults: "fst ` set (own_enumerable (Some defaults)) = {''lang'', ''dir'', ''fileNameCase''}"
  by (simp add: defaults_def)

text \<open>
  Claim C8, as amended. The resolution drops no key and checks no value. For every key
  other than \<^verbatim>\<open>__proto__\<close> (the one key that assignment treats in a way of its
  own, and of which nothing is said here): the effective configuration has the key exactly
  when the defaults or one of the overrides has it, known to the tool or not, and its one
  value is that of the last source that has the key (the local file, else the global one,
  else the defaults \<^verbatim>\<open>js\<close>, \<^verbatim>\<open>src/components\<close>, \<^verbatim>\<open>pascal\<close>), whatever that
  value is. This is the value the script reads for its three keys.
\<close>

theorem getConfig_keeps_every_key:
  assumes "requireOptional e (global_config_path e) = Inr g"
    and "requireOptional e (local_config_path e) = Inr l"
  shows "\<exists>config. getConfig e = Inr config
    \<and> dom (own config) - {''__proto__''} =
        ({''lang'', ''dir'', ''fileNameCase''}
         \<union> fst ` set (own_enumerable g) \<union> fst ` set (own_enumerable l)) - {''__proto__''}
    \<and> (\<forall>k v. k \<noteq> ''__proto__'' \<and> own_property l k = Some v \<longrightarrow> own config k = Some v)
    \<and> (\<forall>k v. k \<noteq> ''__proto__'' \<and> own_property l k = None \<and> own_property g k = Some v
          \<longrightarrow> own config k = Some v)
    \<and> (\<forall>k. k \<noteq> ''__proto__'' \<and> own_property l k = None \<and> own_property g k = None
          \<longrightarrow> own config k =
                [''lang'' \<mapsto> JStr ''js'', ''dir'' \<mapsto> JStr ''src/components'',
                 ''fileNameCase'' \<mapsto> JStr ''pascal''] k)
    \<and> (\<forall>k. k = ''lang'' \<or> k = ''dir'' \<or> k = ''fileNameCase'' \<longrightarrow> Get config k = own config k)"
proof -
  let ?config = "Object_assign empty_object [Some defaults, g, l]"
  have c: "getConfig e = Inr ?config"
    using assms by (rule getConfig_Inr)
  have d: "dom (own ?config) - {''__proto__''} =
        ({''lang'', ''dir'', ''fileNameCase''}
         \<union> fst ` set (own_enumerable g) \<union> fst ` set (own_enumerable l)) - {''__proto__''}"
    unfolding dom_own_Object_assign_three dom_defaults by (simp add: empty_object_def)
  have l: "\<forall>k v. k \<noteq> ''__proto__'' \<and> own_property l k = Some v \<longrightarrow> own ?config k = Some v"
    by (simp add: own_Object_assign_three)
  have g: "\<forall>k v. k \<noteq> ''__proto__'' \<and> own_property l k = None \<and> own_property g k = Some v
          \<longrightarrow> own ?config k = Some v"
    by (simp add: own_Object_assign_three)
  have f: "\<forall>k. k \<noteq> ''__proto__'' \<and> own_property l k = None \<and> own_property g k = None
          \<longrightarrow> own ?config k =
                [''lang'' \<mapsto> JStr ''js'', ''dir'' \<mapsto> JStr ''src/components'',
                 ''fileNameCase'' \<mapsto> JStr ''pascal''] k"
  proof (intro allI impI, elim conjE)
    fix k
    assume h: "k \<noteq> ''__proto__''" "own_property l k = None" "own_property g k = None"
    have "own ?config k = (case own_property (Some defaults) k of Some v \<Rightarrow> Some v | None \<Rightarrow> None)"
      using h by (simp add: own_Object_assign_three [OF h(1)] empty_object_def split: option.splits)
    then show "own ?config k =
                [''lang'' \<mapsto> JStr ''js'', ''dir'' \<mapsto> JStr ''src/components'',
                 ''fileNameCase'' \<mapsto> JStr ''pascal''] k"
      unfolding own_property_defaults by (simp split: option.splits)
  qed
  have r: "\<forall>k. k = ''lang'' \<or> k = ''dir'' \<or> k = ''fileNameCase'' \<longrightarrow> Get ?config k = own ?config k"
    using known_keys_own by blast
  show ?thesis
    by (rule exI [where x = ?config], intro conjI) (rule c d l g f r)+
qed

lemma unchecked_env_global:
  "requireOptional unchecked_env (global_config_path unchecked_env)
     = Inr (Some (JObj [(''lang'', JStr ''python''), (''theme'', JStr ''dark'')]))"
  by (simp add: requireOptional_def readFilePromise_def global_config_path_def
      unchecked_env_def plain_env_def)

lemma unchecked_env_local:
  "requireOptional unchecked_env (local_config_path unchecked_env) = Inr None"
  by (simp add: requireOptional_def readFilePromise_def local_config_path_def
      unchecked_env_def plain_env_def)

lemma four_keys_apart:
  "a \<noteq> p \<Longrightarrow> b \<noteq> p \<Longrightarrow> c \<noteq> p \<Longrightarrow> t \<noteq> p \<Longrightarrow>
   ({a, b, c} \<union> {a, t} \<union> {}) - {p} = {a, b, c, t}"
  by auto

theorem getConfig_keeps_every_key_witness:
  "\<exists>config. getConfig unchecked_env = Inr config
     \<and> dom (own config) - {''__proto__''} = {''lang'', ''dir'', ''fileNameCase'', ''theme''}
     \<and> own config ''lang'' = Some (JStr ''python'')
     \<and> own config ''theme'' = Some (JStr ''dark'')
     \<and> own config ''dir'' = Some (JStr ''src/components'')
     \<and> Get config ''lang'' = Some (JStr ''python'')"
proof -
  let ?g = "Some (JObj [(''lang'', JStr ''python''), (''theme'', JStr ''dark'')])"
  obtain config where h: "getConfig unchecked_env = Inr config
    \<and> dom (own config) - {''__proto__''} =
        ({''lang'', ''dir'', ''fileNameCase''}
         \<union> fst ` set (own_enumerable ?g) \<union> fst ` set (own_enumerable None)) - {''__proto__''}
    \<and> (\<forall>k v. k \<noteq> ''__proto__'' \<and> own_property None k = Some v \<longrightarrow> own config k = Some v)
    \<and> (\<forall>k v. k \<noteq> ''__proto__'' \<and> own_property None k = None \<and> own_property ?g k = Some v
          \<longrightarrow> own config k = Some v)
    \<and> (\<forall>k. k \<noteq> ''__proto__'' \<and> own_property None k = None \<and> own_property ?g k = None
          \<longrightarrow> own config k =
                [''lang'' \<mapsto> JStr ''js'', ''dir'' \<mapsto> JStr ''src/components'',
                 ''fileNameCase'' \<mapsto> JStr ''pascal''] k)
    \<and> (\<forall>k. k = ''lang'' \<or> k = ''dir'' \<or> k = ''fileNameCase'' \<longrightarrow> Get config k = own config k)"
    using getConfig_keeps_every_key [OF unchecked_env_global unchecked_env_local] ..
  note c = h [THEN conjunct1]
  note d = h [THEN conjunct2, THEN conjunct1]
  note g = h [THEN conjunct2, THEN conjunct2, THEN conjunct2, THEN conjunct1]
  note f = h [THEN conjunct2, THEN conjunct2, THEN conjunct2, THEN conjunct2, THEN conjunct1]
  note r = h [THEN conjunct2, THEN conjunct2, THEN conjunct2, THEN conjunct2, THEN conjunct2]
  have k: "fst ` set (own_enumerable ?g) = {''lang'', ''theme''}"
    "fst ` set (own_enumerable None) = {}"
    by simp_all
  have d': "dom (own config) - {''__proto__''} = {''lang'', ''dir'', ''fileNameCase'', ''theme''}"
    unfolding d k by (rule four_keys_apart) simp_all
  have 1: "own config ''lang'' = Some (JStr ''python'')"
    using g [rule_format, of "''lang''" "JStr ''python''"] by (simp add: own_property_def)
  have 2: "own config ''theme'' = Some (JStr ''dark'')"
    using g [rule_format, of "''theme''" "JStr ''dark''"] by (simp add: own_property_def)
  have 3: "own config ''dir'' = Some (JStr ''src/components'')"
    using f [rule_format, of "''dir''"] by (simp add: own_property_def)
  have 4: "Get config ''lang'' = Some (JStr ''python'')"
    using r [rule_format, of "''lang''"] 1 by simp
  show ?thesis
    by (rule exI [where x = config], intro conjI) (rule c d' 1 2 3 4)+
qed

text \<open>
  Claim C8 as stated fails: a global override \<^verbatim>\<open>{"lang":"python","theme":"dark"}\<close>
  gives an effective configuration with the language \<^verbatim>\<open>python\<close> and the key
  \<^verbatim>\<open>theme\<close>.
\<close>

theorem getConfig_no_validation_counterexample:
  "getConfig unchecked_env
     = Inr \<lparr>own = [''lang'' \<mapsto> JStr ''python'', ''dir'' \<mapsto> JStr ''src/components'',
                  ''fileNameCase'' \<mapsto> JStr ''pascal'', ''theme'' \<mapsto> JStr ''dark''],
           proto = Object_prototype\<rparr>"
proof -
  let ?config = "Object_assign empty_object
          [Some defaults, Some (JObj [(''lang'', JStr ''python''), (''theme'', JStr ''dark'')]), None]"
  have o: "own ?config
        = [''lang'' \<mapsto> JStr ''python'', ''dir'' \<mapsto> JStr ''src/components'',
           ''fileNameCase'' \<mapsto> JStr ''pascal'', ''theme'' \<mapsto> JStr ''dark'']"
    by (rule ext) (simp add: Object_assign_def defaults_def assign_property_def empty_object_def)
  have p: "proto ?config = Object_prototype"
    by (simp add: Object_assign_def defaults_def assign_property_def empty_object_def)
  have "?config = \<lparr>own = [''lang'' \<mapsto> JStr ''python'', ''dir'' \<mapsto> JStr ''src/components'',
                  ''fileNameCase'' \<mapsto> JStr ''pascal'', ''theme'' \<mapsto> JStr ''dark''],
           proto = Object_prototype\<rparr>"
    using o p by (rule js_object_eqI)
  then show ?thesis
    by (simp add: getConfig_def unchecked_env_global unchecked_env_local)
qed

section \<open>Rendering the template\<close>

lemma GetSubstitution_literal:
  "CHR ''$'' \<notin> set r \<Longrightarrow> GetSubstitution m b a r = r"
  by (induction m b a r rule: GetSubstitution.induct) auto

lemma PascalCase_chars:
  assumes "test_PascalCase n"
  shows "CHR ''$'' \<notin> set n \<and> CHR ''_'' \<notin> set n"
proof -
  have cls: "\<And>d. lower_az d \<or> upper_AZ d \<or> digit_09 d \<Longrightarrow> d \<noteq> CHR ''$'' \<and> d \<noteq> CHR ''_''"
    by (auto simp: char_class_defs)
  obtain c cs where n: "n = c # cs" and c: "upper_AZ c"
    and cs: "list_all (\<lambda>d. lower_az d \<or> upper_AZ d \<or> digit_09 d) cs"
    using assms by (auto simp: test_PascalCase_def split: list.splits)
  have "\<forall>d \<in> set n. d \<noteq> CHR ''$'' \<and> d \<noteq> CHR ''_''"
    using n c cs cls by (auto simp: list_all_iff)
  then show ?thesis by blast
qed

lemma length_COMPONENT_NAME: "length COMPONENT_NAME = 14"
  by (simp add: COMPONENT_NAME_def)

lemma underscore_in_COMPONENT_NAME: "CHR ''_'' \<in> set COMPONENT_NAME"
  by (simp add: COMPONENT_NAME_def)

lemma replace_no_occurrence:
  "\<not> sublist COMPONENT_NAME t \<Longrightarrow> replace_COMPONENT_NAME r b t = t"
proof (induction t arbitrary: b)
  case Nil
  show ?case by simp
next
  case (Cons c cs)
  have np: "\<not> prefix COMPONENT_NAME (c # cs)"
    using Cons.prems prefix_imp_sublist by blast
  have ns: "\<not> sublist COMPONENT_NAME cs"
    using Cons.prems by (simp add: sublist_Cons_right)
  show ?case
    using np Cons.IH [OF ns] by simp
qed

lemma replace_at_match:
  "replace_COMPONENT_NAME r b (COMPONENT_NAME @ post) =
     GetSubstitution COMPONENT_NAME b post r
     @ replace_COMPONENT_NAME r (b @ COMPONENT_NAME) post"
proof -
  obtain c cs where t: "COMPONENT_NAME @ post = c # cs"
    by (simp add: COMPONENT_NAME_def)
  have p: "prefix COMPONENT_NAME (c # cs)"
    unfolding t [symmetric] by simp
  have "replace_COMPONENT_NAME r b (c # cs) =
     GetSubstitution COMPONENT_NAME b (drop (length COMPONENT_NAME) (c # cs)) r
     @ replace_COMPONENT_NAME r (b @ COMPONENT_NAME) (drop (length COMPONENT_NAME) (c # cs))"
    using p by simp
  then show ?thesis
    unfolding t [symmetric] by simp
qed

lemma replace_first_occurrence:
  assumes "CHR ''$'' \<notin> set n"
    and "\<not> sublist COMPONENT_NAME (pre @ butlast COMPONENT_NAME)"
  shows "replace_COMPONENT_NAME n b (pre @ COMPONENT_NAME @ post) =
     pre @ n @ replace_COMPONENT_NAME n (b @ pre @ COMPONENT_NAME) post"
  using assms(2)
proof (induction pre arbitrary: b)
  case Nil
  show ?case
    using replace_at_match [of n b post] GetSubstitution_literal [OF assms(1)] by simp
next
  case (Cons c pre)
  have np: "\<not> prefix COMPONENT_NAME (c # pre @ COMPONENT_NAME @ post)"
  proof
    assume p: "prefix COMPONENT_NAME (c # pre @ COMPONENT_NAME @ post)"
    have "prefix (butlast COMPONENT_NAME) COMPONENT_NAME"
      by (simp add: prefixeq_butlast)
    then have q: "prefix ((c # pre) @ butlast COMPONENT_NAME) (c # pre @ COMPONENT_NAME @ post)"
      by (simp add: prefix_def) (metis append.assoc)
    have "prefix COMPONENT_NAME ((c # pre) @ butlast COMPONENT_NAME)"
      by (rule prefix_length_prefix [OF p q]) (simp add: length_COMPONENT_NAME)
    then show False
      using Cons.prems prefix_imp_sublist by blast
  qed
  have ns: "\<not> sublist COMPONENT_NAME (pre @ butlast COMPONENT_NAME)"
    using Cons.prems by (simp add: sublist_Cons_right)
  have "replace_COMPONENT_NAME n b (c # pre @ COMPONENT_NAME @ post)
        = c # replace_COMPONENT_NAME n (b @ [c]) (pre @ COMPONENT_NAME @ post)"
    using np by simp
  then show ?case
    using Cons.IH [OF ns, of "b @ [c]"] by simp
qed

lemma set_replace_subset:
  "CHR ''$'' \<notin> set n \<Longrightarrow>
   set (replace_COMPONENT_NAME n b t) \<subseteq> set n \<union> set (replace_COMPONENT_NAME [] b t)"
proof (induction n b t rule: replace_COMPONENT_NAME.induct)
  case (1 replacement before)
  show ?case by simp
next
  case (2 replacement before c cs)
  show ?case
  proof (cases "prefix COMPONENT_NAME (c # cs)")
    case True
    then show ?thesis
      using 2(1) [OF True 2(3)] GetSubstitution_literal [OF 2(3)]
      by auto
  next
    case False
    then show ?thesis
      using 2(2) [OF False 2(3)] by auto
  qed
qed

section \<open>The file system operations\<close>

lemma fs_mkdir_Inr:
  "fs_mkdir e p s = Inr s1 \<longleftrightarrow>
     \<not> existsSync s p \<and> mkdir_refused e p = None \<and> s1 = s\<lparr>dirs := insert p (dirs s)\<rparr>"
  by (auto simp: fs_mkdir_def split: option.splits)

lemma fs_mkdir_Inl: "fs_mkdir e p s = Inl err \<Longrightarrow> \<exists>code. err = SystemError code"
  by (auto simp: fs_mkdir_def split: option.splits if_splits)

lemma fs_writeFile_Inr:
  "fs_writeFile e p t s = Inr s1 \<longleftrightarrow>
     p \<notin> dirs s \<and> writeFile_refused e p = None \<and> s1 = s\<lparr>files := (files s)(p \<mapsto> t)\<rparr>"
  by (auto simp: fs_writeFile_def split: option.splits write_refusal.splits)


lemma filePath_neq_indexPath: "filePath opts dir fileName \<noteq> indexPath opts dir"
proof -
  have "last (filePath opts dir fileName) = CHR ''x''"
    by (simp add: filePath_def fileExtension_def)
  moreover have "last (indexPath opts dir) = CHR ''s''"
    by (simp add: indexPath_def indexExtension_def)
  ultimately show ?thesis
    by auto
qed

section \<open>The promise chain\<close>







lemma chain_succeeds:
  "fs_mkdir e dir s = Inr s1 \<Longrightarrow>
   readFilePromiseRelative e template_path = Inr template \<Longrightarrow>
   prettify (render template name) = Inr body \<Longrightarrow>
   fs_writeFile e (filePath opts dir fileName) body s1 = Inr s2 \<Longrightarrow>
   prettify indexTemplate = Inr indexText \<Longrightarrow>
   fs_writeFile e (indexPath opts dir) indexText s2 = Inr s3 \<Longrightarrow>
   chain e prettify opts template_path dir name fileName indexTemplate s
     = \<lparr>outcome = Created,
        events = [Mkdir dir, LogItemCompletion ''Directory created.'',
                  WriteFile (filePath opts dir fileName) body,
                  LogItemCompletion ''Component built and saved to disk.'',
                  WriteFile (indexPath opts dir) indexText,
                  LogItemCompletion ''Index file built and saved to disk.'',
                  LogConclusion],
        fs_after = s3\<rparr>"
  by (simp add: chain_def)

lemma chain_Created_D:
  assumes "outcome (chain e prettify opts template_path dir name fileName indexTemplate s) = Created"
  shows "\<exists>s1 template body s2 indexText s3.
     fs_mkdir e dir s = Inr s1
   \<and> readFilePromiseRelative e template_path = Inr template
   \<and> prettify (render template name) = Inr body
   \<and> fs_writeFile e (filePath opts dir fileName) body s1 = Inr s2
   \<and> prettify indexTemplate = Inr indexText
   \<and> fs_writeFile e (indexPath opts dir) indexText s2 = Inr s3"
  using assms
  by (auto simp: chain_def caught_def Let_def split: sum.splits prod.splits)

section \<open>The script\<close>

lemma createParent_files:
  "createParentDirectoryIfNecessary e dir s = Inr (evs, s1) \<Longrightarrow> files s1 = files s"
  by (auto simp: createParentDirectoryIfNecessary_def fs_mkdir_def
      split: option.splits json.splits if_splits sum.splits)

lemma createParent_exists:
  "createParentDirectoryIfNecessary e (Some (JStr d)) s = Inr (evs, s1) \<Longrightarrow> existsSync s d \<Longrightarrow>
   s1 = s \<and> evs = []"
  by (simp add: createParentDirectoryIfNecessary_def)

lemma createParent_cases:
  "createParentDirectoryIfNecessary e dir s = Inr (evs, s1) \<Longrightarrow>
   (\<exists>d. dir = Some (JStr d) \<and> existsSync s d \<and> evs = [] \<and> s1 = s)
   \<or> (\<exists>d. dir = Some (JStr d) \<and> \<not> existsSync s d \<and> evs = [Mkdir d]
          \<and> s1 = s\<lparr>dirs := insert d (dirs s)\<rparr>)"
  by (auto simp: createParentDirectoryIfNecessary_def fs_mkdir_def
      split: option.splits json.splits if_splits sum.splits)

lemma createParent_not_string:
  "\<forall>d. dir \<noteq> Some (JStr d) \<Longrightarrow> createParentDirectoryIfNecessary e dir s = Inl TypeError"
  by (auto simp: createParentDirectoryIfNecessary_def split: option.splits json.splits)

lemma createParent_written:
  "createParentDirectoryIfNecessary e dir s = Inr (evs, s1) \<Longrightarrow> written evs = []"
  using createParent_cases [of e dir s evs s1] by auto

lemma PascalCase_not_empty: "test_PascalCase n \<Longrightarrow> n \<noteq> []"
  by (auto simp: test_PascalCase_def)

lemma componentName_Some: "componentName c = Some n \<Longrightarrow> args c \<noteq> []"
  by (auto simp: componentName_def)

lemma componentName_None: "componentName c = None \<longleftrightarrow> args c = []"
  by (auto simp: componentName_def split: list.splits)

lemma main_missing_argument:
  assumes "getConfig e = Inr config"
    and "prettifier e = Inr prettify"
    and "args c = []"
  shows "main e c s =
     \<lparr>outcome = Exited 1, events = [CommanderError missing_argument_message], fs_after = s\<rparr>"
  using assms by (simp add: main_def)

lemma main_before_intro:
  assumes "getConfig e = Inr config"
    and "prettifier e = Inr prettify"
    and "componentName c = Some name"
    and "formatComponentName (Some name) (opt_case (program_opts config c)) = Inr fileName"
    and "templatePath (program_opts config c) = Inr template_path"
    and "componentDir (program_opts config c) fileName = Inr dir"
    and "prettify (indexSource fileName) = Inr indexTemplate"
  shows "main e c s =
     (if name = [] then exited missing_name_message [LogIntro] s
      else if \<not> test_PascalCase name then exited not_PascalCase_message [LogIntro] s
      else
        (case createParentDirectoryIfNecessary e (opt_dir (program_opts config c)) s of
           Inr (evs, s1) \<Rightarrow>
             if existsSync s1 dir
             then exited (already_exists_message dir) (LogIntro # evs) s1
             else (chain e prettify (program_opts config c) template_path dir name fileName
                     indexTemplate s1)
                    \<lparr>events := LogIntro # evs
                       @ events (chain e prettify (program_opts config c) template_path dir name
                                   fileName indexTemplate s1)\<rparr>
         | Inl err \<Rightarrow>
             if existsSync s dir
             then exited (already_exists_message dir) [LogIntro] s
             else unhandled_rejection e err dir s))"
  using assms componentName_Some [OF assms(3)]
  by (simp add: main_def Let_def split: sum.splits prod.splits)

lemma main_invalid_name_reported:
  assumes "getConfig e = Inr config"
    and "prettifier e = Inr prettify"
    and "componentName c = Some name"
    and "formatComponentName (Some name) (opt_case (program_opts config c)) = Inr fileName"
    and "templatePath (program_opts config c) = Inr template_path"
    and "componentDir (program_opts config c) fileName = Inr dir"
    and "prettify (indexSource fileName) = Inr indexTemplate"
    and "\<not> test_PascalCase name"
  shows "main e c s =
     \<lparr>outcome = Exited 0,
      events = [LogIntro,
                LogError (if name = [] then missing_name_message else not_PascalCase_message)],
      fs_after = s\<rparr>"
  unfolding main_before_intro [OF assms(1-7)] using assms(8)
  by (simp add: exited_def)

lemma main_at_check:
  assumes "getConfig e = Inr config"
    and "prettifier e = Inr prettify"
    and "componentName c = Some name"
    and "formatComponentName (Some name) (opt_case (program_opts config c)) = Inr fileName"
    and "templatePath (program_opts config c) = Inr template_path"
    and "componentDir (program_opts config c) fileName = Inr dir"
    and "prettify (indexSource fileName) = Inr indexTemplate"
    and "test_PascalCase name"
    and "createParentDirectoryIfNecessary e (opt_dir (program_opts config c)) s = Inr (evs, s1)"
  shows "main e c s =
     (if existsSync s1 dir
      then \<lparr>outcome = Exited 0,
            events = LogIntro # evs @ [LogError (already_exists_message dir)],
            fs_after = s1\<rparr>
      else (chain e prettify (program_opts config c) template_path dir name fileName
              indexTemplate s1)
             \<lparr>events := LogIntro # evs
                @ events (chain e prettify (program_opts config c) template_path dir name
                            fileName indexTemplate s1)\<rparr>)"
  unfolding main_before_intro [OF assms(1-7)]
  using assms(8) assms(9) PascalCase_not_empty [OF assms(8)]
  by (simp add: exited_def)

lemma main_at_check_rejected:
  assumes "getConfig e = Inr config"
    and "prettifier e = Inr prettify"
    and "componentName c = Some name"
    and "formatComponentName (Some name) (opt_case (program_opts config c)) = Inr fileName"
    and "templatePath (program_opts config c) = Inr template_path"
    and "componentDir (program_opts config c) fileName = Inr dir"
    and "prettify (indexSource fileName) = Inr indexTemplate"
    and "test_PascalCase name"
    and "createParentDirectoryIfNecessary e (opt_dir (program_opts config c)) s = Inl err"
  shows "main e c s =
     (if existsSync s dir
      then \<lparr>outcome = Exited 0,
            events = [LogIntro, LogError (already_exists_message dir)],
            fs_after = s\<rparr>
      else unhandled_rejection e err dir s)"
  unfolding main_before_intro [OF assms(1-7)]
  using assms(8) assms(9) PascalCase_not_empty [OF assms(8)]
  by (simp add: exited_def)


lemma main_invalid_name_no_effect:
  assumes "args c = [] \<or> (\<exists>n. componentName c = Some n \<and> \<not> test_PascalCase n)"
  shows "fs_after (main e c s) = s \<and> made (events (main e c s)) = []
       \<and> written (events (main e c s)) = []"
  using assms
  by (auto simp: main_def Let_def exited_def crashed_def split: sum.splits)

lemma main_Created_D:
  assumes "outcome (main e c s) = Created"
  shows "\<exists>config prettify name fileName template_path dir indexTemplate evs s1.
      getConfig e = Inr config
    \<and> prettifier e = Inr prettify
    \<and> componentName c = Some name
    \<and> formatComponentName (Some name) (opt_case (program_opts config c)) = Inr fileName
    \<and> templatePath (program_opts config c) = Inr template_path
    \<and> componentDir (program_opts config c) fileName = Inr dir
    \<and> prettify (indexSource fileName) = Inr indexTemplate
    \<and> test_PascalCase name
    \<and> createParentDirectoryIfNecessary e (opt_dir (program_opts config c)) s = Inr (evs, s1)
    \<and> \<not> existsSync s1 dir
    \<and> outcome (chain e prettify (program_opts config c) template_path dir name fileName
                  indexTemplate s1) = Created"
  using assms
  by (auto simp: main_def Let_def exited_def crashed_def unhandled_rejection_def
      split: sum.splits option.splits if_splits prod.splits)

lemma getConfig_plain_env:
  "getConfig plain_env
     = Inr \<lparr>own = [''lang'' \<mapsto> JStr ''js'', ''dir'' \<mapsto> JStr ''src/components'',
                  ''fileNameCase'' \<mapsto> JStr ''pascal''],
           proto = Object_prototype\<rparr>"
  by (simp add: getConfig_def requireOptional_def readFilePromise_def plain_env_def
      global_config_path_def local_config_path_def defaults_assigned)

lemma indexSource_Some: "indexSource (Some F) = ''export * from './'' @ F @ ''';\<newline>''"
  by (simp add: indexSource_def String_name_def)

lemma paths_of_strings:
  assumes "opt_dir opts = Some (JStr dir)" and "opt_lang opts = Some (JStr lang)"
  shows "componentDir opts (Some F) = Inr (dir @ ''/'' @ F)"
    and "filePath opts (dir @ ''/'' @ F) (Some F)
           = dir @ ''/'' @ F @ ''/'' @ F @ (if lang = ''js'' then ''.jsx'' else ''.tsx'')"
    and "indexPath opts (dir @ ''/'' @ F)
           = dir @ ''/'' @ F @ (if lang = ''js'' then ''/index.js'' else ''/index.ts'')"
    and "templatePath opts = Inr (''./templates/'' @ lang @ ''.jsx'')"
  using assms
  by (simp_all add: componentDir_def filePath_def indexPath_def templatePath_def
      fileExtension_def indexExtension_def String_value_def String_name_def)

section \<open>Runs of the script\<close>

lemmas script_defs =
  main_def chain_def caught_def crashed_def exited_def unhandled_rejection_def Let_def
  createParentDirectoryIfNecessary_def fs_mkdir_def fs_writeFile_def existsSync_def
  readFilePromiseRelative_def readFilePromise_def
  program_opts_def Get_def componentName_def formatComponentName_def test_PascalCase_def
  componentDir_def filePath_def indexPath_def templatePath_def indexSource_def
  fileExtension_def indexExtension_def String_value_def String_name_def
  render_def COMPONENT_NAME_def toLowerCase_def char_class_defs

lemmas example_defs =
  plain_env_def js_template_def only_name_def kebab_name_def no_name_def
  project_fs_def project_with_Button_def

lemma run_Button:
  "main plain_env (only_name ''Button'') project_fs =
     \<lparr>outcome = Created,
      events =
        [LogIntro,
         Mkdir ''src/components/Button'',
         LogItemCompletion ''Directory created.'',
         WriteFile ''src/components/Button/Button.jsx''
           ''function Button() {}\<newline>export default Button;\<newline>'',
         LogItemCompletion ''Component built and saved to disk.'',
         WriteFile ''src/components/Button/index.js'' ''export * from './Button';\<newline>'',
         LogItemCompletion ''Index file built and saved to disk.'',
         LogConclusion],
      fs_after =
        \<lparr>dirs = {''src/components/Button'', ''src'', ''src/components''},
         files = [''src/components/Button/Button.jsx''
                    \<mapsto> ''function Button() {}\<newline>export default Button;\<newline>'',
                  ''src/components/Button/index.js'' \<mapsto> ''export * from './Button';\<newline>'']\<rparr>\<rparr>"
  unfolding main_def getConfig_plain_env by (simp add: script_defs example_defs)

lemma run_NavBar_kebab:
  "main plain_env (kebab_name ''NavBar'') project_fs =
     \<lparr>outcome = Created,
      events =
        [LogIntro,
         Mkdir ''src/components/nav-bar'',
         LogItemCompletion ''Directory created.'',
         WriteFile ''src/components/nav-bar/nav-bar.jsx''
           ''function NavBar() {}\<newline>export default NavBar;\<newline>'',
         LogItemCompletion ''Component built and saved to disk.'',
         WriteFile ''src/components/nav-bar/index.js'' ''export * from './nav-bar';\<newline>'',
         LogItemCompletion ''Index file built and saved to disk.'',
         LogConclusion],
      fs_after =
        \<lparr>dirs = {''src/components/nav-bar'', ''src'', ''src/components''},
         files = [''src/components/nav-bar/nav-bar.jsx''
                    \<mapsto> ''function NavBar() {}\<newline>export default NavBar;\<newline>'',
                  ''src/components/nav-bar/index.js'' \<mapsto> ''export * from './nav-bar';\<newline>'']\<rparr>\<rparr>"
  unfolding main_def getConfig_plain_env by (simp add: script_defs example_defs)

text \<open>
  An override file that gives an object with an own \<^verbatim>\<open>toString\<close> key for the language:
  the template literal of the template path throws, before the intro and before the name
  is looked at.
\<close>

lemma getConfig_object_lang_env:
  "getConfig object_lang_env
     = Inr \<lparr>own = [''lang'' \<mapsto> JObj [(''toString'', JNum ''1'')],
                  ''dir'' \<mapsto> JStr ''src/components'', ''fileNameCase'' \<mapsto> JStr ''pascal''],
           proto = Object_prototype\<rparr>"
proof -
  let ?config = "Object_assign empty_object
          [Some defaults, None, Some (JObj [(''lang'', JObj [(''toString'', JNum ''1'')])])]"
  have o: "own ?config
        = [''lang'' \<mapsto> JObj [(''toString'', JNum ''1'')],
           ''dir'' \<mapsto> JStr ''src/components'', ''fileNameCase'' \<mapsto> JStr ''pascal'']"
    by (rule ext) (simp add: Object_assign_def defaults_def assign_property_def empty_object_def)
  have p: "proto ?config = Object_prototype"
    by (simp add: Object_assign_def defaults_def assign_property_def empty_object_def)
  have "?config = \<lparr>own = [''lang'' \<mapsto> JObj [(''toString'', JNum ''1'')],
                  ''dir'' \<mapsto> JStr ''src/components'', ''fileNameCase'' \<mapsto> JStr ''pascal''],
           proto = Object_prototype\<rparr>"
    using o p by (rule js_object_eqI)
  then show ?thesis
    by (simp add: getConfig_def requireOptional_def readFilePromise_def object_lang_env_def
        plain_env_def global_config_path_def local_config_path_def)
qed

lemma run_object_lang:
  "main object_lang_env (only_name ''myComponent'') project_fs =
     \<lparr>outcome = Crashed TypeError, events = [], fs_after = project_fs\<rparr>"
  unfolding main_def getConfig_object_lang_env
  by (simp add: script_defs object_lang_env_def example_defs)

lemma plain_env_prettifier: "prettifier plain_env = Inr (\<lambda>t. Inr t)"
  by (simp add: plain_env_def)

lemma plain_env_template:
  "readFilePromiseRelative plain_env ''./templates/js.jsx'' = Inr js_template"
  by (simp add: readFilePromiseRelative_def readFilePromise_def plain_env_def)

lemma render_NavBar:
  "render js_template ''NavBar'' = ''function NavBar() {}\<newline>export default NavBar;\<newline>''"
  by (simp add: render_def js_template_def COMPONENT_NAME_def)

lemma plain_opts:
  "program_opts \<lparr>own = [''lang'' \<mapsto> JStr ''js'', ''dir'' \<mapsto> JStr ''src/components'',
                        ''fileNameCase'' \<mapsto> JStr ''pascal''],
                 proto = Object_prototype\<rparr> (only_name n)
     = \<lparr>opt_lang = Some (JStr ''js''), opt_dir = Some (JStr ''src/components''),
        opt_case = Some (JStr ''pascal'')\<rparr>"
  "program_opts \<lparr>own = [''lang'' \<mapsto> JStr ''js'', ''dir'' \<mapsto> JStr ''src/components'',
                        ''fileNameCase'' \<mapsto> JStr ''pascal''],
                 proto = Object_prototype\<rparr> (kebab_name n)
     = \<lparr>opt_lang = Some (JStr ''js''), opt_dir = Some (JStr ''src/components''),
        opt_case = Some (JStr ''kebab'')\<rparr>"
  "program_opts \<lparr>own = [''lang'' \<mapsto> JStr ''js'', ''dir'' \<mapsto> JStr ''src/components'',
                        ''fileNameCase'' \<mapsto> JStr ''pascal''],
                 proto = Object_prototype\<rparr> no_name
     = \<lparr>opt_lang = Some (JStr ''js''), opt_dir = Some (JStr ''src/components''),
        opt_case = Some (JStr ''pascal'')\<rparr>"
  by (simp_all add: program_opts_def Get_def only_name_def kebab_name_def no_name_def)

text \<open>
  Claim C6, as amended. A run that completes, with directory \<open>dir\<close>, language \<open>lang\<close>
  and the name \<open>N\<close> formatted to \<open>F\<close>, writes exactly two files: \<open>dir/F/F.jsx\<close> (for
  \<^verbatim>\<open>js\<close>; \<open>.tsx\<close> otherwise) with the formatted rendering of the template, and
  \<open>dir/F/index.js\<close> (\<open>index.ts\<close>) with what the formatter, applied twice, makes of the
  statement \<^verbatim>\<open>export * from './F';\<close>. Where the formatter leaves the statement as it
  is, the statement is the content of the index file.
\<close>

theorem created_run_writes_two_files:
  assumes "outcome (main e c s) = Created"
    and "getConfig e = Inr config"
    and "prettifier e = Inr prettify"
    and "opt_dir (program_opts config c) = Some (JStr dir)"
    and "opt_lang (program_opts config c) = Some (JStr lang)"
    and "componentName c = Some N"
    and "formatComponentName (Some N) (opt_case (program_opts config c)) = Inr (Some F)"
  shows "\<exists>template text formatted indexText.
       readFilePromiseRelative e (''./templates/'' @ lang @ ''.jsx'') = Inr template
     \<and> prettify (render template N) = Inr text
     \<and> prettify (''export * from './'' @ F @ ''';\<newline>'') = Inr formatted
     \<and> prettify formatted = Inr indexText
     \<and> (formatted = ''export * from './'' @ F @ ''';\<newline>'' \<longrightarrow> indexText = formatted)
     \<and> files (fs_after (main e c s)) =
         (files s)
           (dir @ ''/'' @ F @ ''/'' @ F @ (if lang = ''js'' then ''.jsx'' else ''.tsx'') \<mapsto> text,
            dir @ ''/'' @ F @ (if lang = ''js'' then ''/index.js'' else ''/index.ts'') \<mapsto> indexText)
     \<and> written (events (main e c s)) =
         [(dir @ ''/'' @ F @ ''/'' @ F @ (if lang = ''js'' then ''.jsx'' else ''.tsx''), text),
          (dir @ ''/'' @ F @ (if lang = ''js'' then ''/index.js'' else ''/index.ts''), indexText)]
     \<and> dir @ ''/'' @ F \<in> dirs (fs_after (main e c s))"
proof -
  let ?opts = "program_opts config c"
  let ?tp = "''./templates/'' @ lang @ ''.jsx''"
  let ?dir = "dir @ ''/'' @ F"
  obtain config' prettify' name fileName template_path dir' indexTemplate evs s1 where
    m: "getConfig e = Inr config'" "prettifier e = Inr prettify'" "componentName c = Some name"
      "formatComponentName (Some name) (opt_case (program_opts config' c)) = Inr fileName"
      "templatePath (program_opts config' c) = Inr template_path"
      "componentDir (program_opts config' c) fileName = Inr dir'"
      "prettify' (indexSource fileName) = Inr indexTemplate"
      "test_PascalCase name"
      "createParentDirectoryIfNecessary e (opt_dir (program_opts config' c)) s = Inr (evs, s1)"
      "\<not> existsSync s1 dir'"
      "outcome (chain e prettify' (program_opts config' c) template_path dir' name fileName
                  indexTemplate s1) = Created"
    using main_Created_D [OF assms(1)] by blast
  note p = paths_of_strings(1-3) [OF assms(4) assms(5), of F]
    paths_of_strings(4) [OF assms(4) assms(5)]
  have eq: "config' = config" "prettify' = prettify" "name = N" "fileName = Some F"
    using m(1-4) assms by simp_all
  have eq2: "template_path = ?tp" "dir' = ?dir"
    using m(5) m(6) unfolding eq p by simp_all
  note m' = m [unfolded eq eq2]
  obtain s1' template body s2 indexText s3 where
    ch: "fs_mkdir e ?dir s1 = Inr s1'"
      "readFilePromiseRelative e ?tp = Inr template"
      "prettify (render template N) = Inr body"
      "fs_writeFile e (filePath ?opts ?dir (Some F)) body s1' = Inr s2"
      "prettify indexTemplate = Inr indexText"
      "fs_writeFile e (indexPath ?opts ?dir) indexText s2 = Inr s3"
    using chain_Created_D [OF m'(11)] by blast
  have run: "main e c s =
      (chain e prettify ?opts ?tp ?dir N (Some F) indexTemplate s1)
        \<lparr>events := LogIntro # evs
           @ events (chain e prettify ?opts ?tp ?dir N (Some F) indexTemplate s1)\<rparr>"
    using main_at_check [OF m'(1) m'(2) m'(3) m'(4) m'(5) m'(6) m'(7) m'(8) m'(9)] m'(10)
    by simp
  note res = chain_succeeds [where prettify = prettify and name = N, OF ch]
  have s3: "s3 = s1\<lparr>dirs := insert ?dir (dirs s1),
                    files := (files s1)(filePath ?opts ?dir (Some F) \<mapsto> body,
                                        indexPath ?opts ?dir \<mapsto> indexText)\<rparr>"
    using ch(1) ch(4) ch(6) by (simp add: fs_mkdir_Inr fs_writeFile_Inr)
  have f1: "files s1 = files s"
    using m'(9) by (rule createParent_files)
  have w: "written evs = []"
    using m'(9) by (rule createParent_written)
  have wapp: "\<And>xs ys. written (xs @ ys) = written xs @ written ys"
  proof -
    fix xs ys :: "event list"
    show "written (xs @ ys) = written xs @ written ys"
      by (induction xs rule: written.induct) simp_all
  qed
  have wr: "written (LogIntro # evs
              @ events (chain e prettify ?opts ?tp ?dir N (Some F) indexTemplate s1))
      = [(filePath ?opts ?dir (Some F), body), (indexPath ?opts ?dir, indexText)]"
    unfolding res by (simp add: wapp w)
  have 1: "readFilePromiseRelative e (''./templates/'' @ lang @ ''.jsx'') = Inr template"
    using ch(2) .
  have 3: "prettify (''export * from './'' @ F @ ''';\<newline>'') = Inr indexTemplate"
    using m'(7) by (simp only: indexSource_Some)
  have 5: "indexTemplate = ''export * from './'' @ F @ ''';\<newline>'' \<longrightarrow> indexText = indexTemplate"
    using 3 ch(5) by auto
  have 6: "files (fs_after (main e c s)) =
         (files s)
           (dir @ ''/'' @ F @ ''/'' @ F @ (if lang = ''js'' then ''.jsx'' else ''.tsx'') \<mapsto> body,
            dir @ ''/'' @ F @ (if lang = ''js'' then ''/index.js'' else ''/index.ts'') \<mapsto> indexText)"
    unfolding run res s3 p(2) p(3) by (simp add: f1)
  have 7: "written (events (main e c s)) =
         [(dir @ ''/'' @ F @ ''/'' @ F @ (if lang = ''js'' then ''.jsx'' else ''.tsx''), body),
          (dir @ ''/'' @ F @ (if lang = ''js'' then ''/index.js'' else ''/index.ts''), indexText)]"
    using wr unfolding run p(2) p(3) by simp
  have 8: "dir @ ''/'' @ F \<in> dirs (fs_after (main e c s))"
    unfolding run res s3 by simp
  show ?thesis
    by (rule exI [where x = template], rule exI [where x = body],
        rule exI [where x = indexTemplate], rule exI [where x = indexText], intro conjI)
      (rule 1 ch(3) 3 ch(5) 5 6 7 8)+
qed

theorem created_run_writes_two_files_witness:
  "outcome (main plain_env (kebab_name ''NavBar'') project_fs) = Created
   \<and> formatComponentName (Some ''NavBar'') (Some (JStr ''kebab'')) = Inr (Some ''nav-bar'')
   \<and> files (fs_after (main plain_env (kebab_name ''NavBar'') project_fs)) =
       [''src/components/nav-bar/nav-bar.jsx''
          \<mapsto> ''function NavBar() {}\<newline>export default NavBar;\<newline>'',
        ''src/components/nav-bar/index.js'' \<mapsto> ''export * from './nav-bar';\<newline>'']
   \<and> written (events (main plain_env (kebab_name ''NavBar'') project_fs)) =
       [(''src/components/nav-bar/nav-bar.jsx'',
         ''function NavBar() {}\<newline>export default NavBar;\<newline>''),
        (''src/components/nav-bar/index.js'', ''export * from './nav-bar';\<newline>'')]"
proof -
  let ?config = "\<lparr>own = [''lang'' \<mapsto> JStr ''js'', ''dir'' \<mapsto> JStr ''src/components'',
                         ''fileNameCase'' \<mapsto> JStr ''pascal''],
                  proto = Object_prototype\<rparr>"
  have 1: "outcome (main plain_env (kebab_name ''NavBar'') project_fs) = Created"
    by (simp add: run_NavBar_kebab)
  have 4: "opt_dir (program_opts ?config (kebab_name ''NavBar'')) = Some (JStr ''src/components'')"
    by (simp add: plain_opts)
  have 5: "opt_lang (program_opts ?config (kebab_name ''NavBar'')) = Some (JStr ''js'')"
    by (simp add: plain_opts)
  have 6: "componentName (kebab_name ''NavBar'') = Some ''NavBar''"
    by (simp add: componentName_def kebab_name_def)
  have k: "formatComponentName (Some ''NavBar'') (Some (JStr ''kebab'')) = Inr (Some ''nav-bar'')"
    by (simp add: formatComponentName_def toLowerCase_def char_class_defs)
  have 7: "formatComponentName (Some ''NavBar'') (opt_case (program_opts ?config (kebab_name ''NavBar'')))
           = Inr (Some ''nav-bar'')"
    using k by (simp add: plain_opts)
  obtain template body formatted indexText where
    t: "readFilePromiseRelative plain_env (''./templates/'' @ ''js'' @ ''.jsx'') = Inr template"
    and b: "Inr (render template ''NavBar'') = (Inr body :: js_error + string)"
    and f: "Inr (''export * from './'' @ ''nav-bar'' @ ''';\<newline>'') = (Inr formatted :: js_error + string)"
    and i: "Inr formatted = (Inr indexText :: js_error + string)"
    and fs: "files (fs_after (main plain_env (kebab_name ''NavBar'') project_fs)) =
         (files project_fs)
           (''src/components'' @ ''/'' @ ''nav-bar'' @ ''/'' @ ''nav-bar''
              @ (if ''js'' = ''js'' then ''.jsx'' else ''.tsx'') \<mapsto> body,
            ''src/components'' @ ''/'' @ ''nav-bar''
              @ (if ''js'' = ''js'' then ''/index.js'' else ''/index.ts'') \<mapsto> indexText)"
    and w: "written (events (main plain_env (kebab_name ''NavBar'') project_fs)) =
         [(''src/components'' @ ''/'' @ ''nav-bar'' @ ''/'' @ ''nav-bar''
              @ (if ''js'' = ''js'' then ''.jsx'' else ''.tsx''), body),
          (''src/components'' @ ''/'' @ ''nav-bar''
              @ (if ''js'' = ''js'' then ''/index.js'' else ''/index.ts''), indexText)]"
    using created_run_writes_two_files
      [OF 1 getConfig_plain_env plain_env_prettifier 4 5 6 7]
    by blast
  have template: "template = js_template"
    using t plain_env_template by simp
  have body: "body = ''function NavBar() {}\<newline>export default NavBar;\<newline>''"
    using b render_NavBar by (simp add: template)
  have indexText: "indexText = ''export * from './nav-bar';\<newline>''"
    using f i by simp
  have fs': "files (fs_after (main plain_env (kebab_name ''NavBar'') project_fs)) =
       [''src/components/nav-bar/nav-bar.jsx''
          \<mapsto> ''function NavBar() {}\<newline>export default NavBar;\<newline>'',
        ''src/components/nav-bar/index.js'' \<mapsto> ''export * from './nav-bar';\<newline>'']"
    unfolding fs body indexText by (simp add: project_fs_def)
  have w': "written (events (main plain_env (kebab_name ''NavBar'') project_fs)) =
       [(''src/components/nav-bar/nav-bar.jsx'',
         ''function NavBar() {}\<newline>export default NavBar;\<newline>''),
        (''src/components/nav-bar/index.js'', ''export * from './nav-bar';\<newline>'')]"
    unfolding w body indexText by simp
  show ?thesis
    by (intro conjI) (rule 1 k fs' w')+
qed

lemma getConfig_double_quote_env:
  "getConfig double_quote_env
     = Inr \<lparr>own = [''lang'' \<mapsto> JStr ''js'', ''dir'' \<mapsto> JStr ''src/components'',
                  ''fileNameCase'' \<mapsto> JStr ''pascal''],
           proto = Object_prototype\<rparr>"
  by (simp add: getConfig_def requireOptional_def readFilePromise_def double_quote_env_def
      plain_env_def global_config_path_def local_config_path_def defaults_assigned)

text \<open>
  Claim C6 as stated fails: the index file holds what the formatter makes of the
  statement. In a project whose formatter writes double quotes, the run for \<^verbatim>\<open>Button\<close>
  completes and the index file holds the statement with double quotes, not the statement
  of the claim.
\<close>

theorem created_run_index_file_counterexample:
  \<open>outcome (main double_quote_env (only_name ''Button'') project_fs) = Created
   \<and> files (fs_after (main double_quote_env (only_name ''Button'') project_fs))
        ''src/components/Button/index.js''
      = Some ''export * from "./Button";\<newline>''
   \<and> ''export * from "./Button";\<newline>'' \<noteq> ''export * from './Button';\<newline>''\<close>
proof -
  have run: \<open>main double_quote_env (only_name ''Button'') project_fs =
     \<lparr>outcome = Created,
      events =
        [LogIntro,
         Mkdir ''src/components/Button'',
         LogItemCompletion ''Directory created.'',
         WriteFile ''src/components/Button/Button.jsx''
           ''function Button() {}\<newline>export default Button;\<newline>'',
         LogItemCompletion ''Component built and saved to disk.'',
         WriteFile ''src/components/Button/index.js'' ''export * from "./Button";\<newline>'',
         LogItemCompletion ''Index file built and saved to disk.'',
         LogConclusion],
      fs_after =
        \<lparr>dirs = {''src/components/Button'', ''src'', ''src/components''},
         files = [''src/components/Button/Button.jsx''
                    \<mapsto> ''function Button() {}\<newline>export default Button;\<newline>'',
                  ''src/components/Button/index.js'' \<mapsto> ''export * from "./Button";\<newline>'']\<rparr>\<rparr>\<close>
    unfolding main_def getConfig_double_quote_env
    by (simp add: script_defs double_quote_env_def example_defs)
  show ?thesis
    unfolding run by simp
qed

text \<open>
  Claim C3, as amended. When the name is missing, empty or not PascalCase, no directory is
  created and no file is written, however the run ends. A missing name is reported by the
  command-line parser, which ends the run with status 1, once the configuration and the
  formatter have been obtained. An empty name or one that is not PascalCase is reported
  by the script (the message for a missing name when it is empty, the PascalCase message
  otherwise), with nothing else logged after the intro, when the steps the script takes
  before it looks at the name succeed: the configuration, the formatter, the file name,
  the conversion of the language and of the directory to strings, the formatted index
  template.
\<close>

theorem invalid_name_no_filesystem_effect:
  assumes "args c = [] \<or> (\<exists>n. componentName c = Some n \<and> \<not> test_PascalCase n)"
  shows "fs_after (main e c s) = s
     \<and> made (events (main e c s)) = []
     \<and> written (events (main e c s)) = []
     \<and> (\<forall>config prettify.
           getConfig e = Inr config \<and> prettifier e = Inr prettify \<and> args c = []
           \<longrightarrow> main e c s =
                 \<lparr>outcome = Exited 1, events = [CommanderError missing_argument_message],
                  fs_after = s\<rparr>)
     \<and> (\<forall>config prettify n fileName template_path dir indexTemplate.
           getConfig e = Inr config
           \<and> prettifier e = Inr prettify
           \<and> componentName c = Some n
           \<and> formatComponentName (Some n) (opt_case (program_opts config c)) = Inr fileName
           \<and> templatePath (program_opts config c) = Inr template_path
           \<and> componentDir (program_opts config c) fileName = Inr dir
           \<and> prettify (indexSource fileName) = Inr indexTemplate
           \<longrightarrow> main e c s =
                 \<lparr>outcome = Exited 0,
                  events = [LogIntro,
                            LogError (if n = [] then missing_name_message
                                      else not_PascalCase_message)],
                  fs_after = s\<rparr>)"
proof -
  note 1 = main_invalid_name_no_effect [OF assms, of e s]
  have 2: "\<forall>config prettify.
           getConfig e = Inr config \<and> prettifier e = Inr prettify \<and> args c = []
           \<longrightarrow> main e c s =
                 \<lparr>outcome = Exited 1, events = [CommanderError missing_argument_message],
                  fs_after = s\<rparr>"
    using main_missing_argument by blast
  have 3: "\<forall>config prettify n fileName template_path dir indexTemplate.
           getConfig e = Inr config
           \<and> prettifier e = Inr prettify
           \<and> componentName c = Some n
           \<and> formatComponentName (Some n) (opt_case (program_opts config c)) = Inr fileName
           \<and> templatePath (program_opts config c) = Inr template_path
           \<and> componentDir (program_opts config c) fileName = Inr dir
           \<and> prettify (indexSource fileName) = Inr indexTemplate
           \<longrightarrow> main e c s =
                 \<lparr>outcome = Exited 0,
                  events = [LogIntro,
                            LogError (if n = [] then missing_name_message
                                      else not_PascalCase_message)],
                  fs_after = s\<rparr>"
  proof (intro allI impI, elim conjE)
    fix config prettify n fileName template_path dir indexTemplate
    assume h: "getConfig e = Inr config" "prettifier e = Inr prettify" "componentName c = Some n"
      "formatComponentName (Some n) (opt_case (program_opts config c)) = Inr fileName"
      "templatePath (program_opts config c) = Inr template_path"
      "componentDir (program_opts config c) fileName = Inr dir"
      "prettify (indexSource fileName) = Inr indexTemplate"
    have "\<not> test_PascalCase n"
      using assms h(3) componentName_Some [OF h(3)] by auto
    then show "main e c s =
                 \<lparr>outcome = Exited 0,
                  events = [LogIntro,
                            LogError (if n = [] then missing_name_message
                                      else not_PascalCase_message)],
                  fs_after = s\<rparr>"
      by (rule main_invalid_name_reported [OF h])
  qed
  show ?thesis
    by (intro conjI) (rule 1 [THEN conjunct1] 1 [THEN conjunct2, THEN conjunct1]
        1 [THEN conjunct2, THEN conjunct2] 2 3)+
qed

theorem invalid_name_no_filesystem_effect_witness:
  "args no_name = []
   \<and> main plain_env no_name project_fs =
       \<lparr>outcome = Exited 1, events = [CommanderError missing_argument_message],
        fs_after = project_fs\<rparr>
   \<and> componentName (only_name ''myComponent'') = Some ''myComponent''
   \<and> \<not> test_PascalCase ''myComponent''
   \<and> main plain_env (only_name ''myComponent'') project_fs =
       \<lparr>outcome = Exited 0, events = [LogIntro, LogError not_PascalCase_message],
        fs_after = project_fs\<rparr>
   \<and> componentName (only_name '''') = Some ''''
   \<and> main plain_env (only_name '''') project_fs =
       \<lparr>outcome = Exited 0, events = [LogIntro, LogError missing_name_message],
        fs_after = project_fs\<rparr>
   \<and> fs_after (main object_lang_env (only_name ''myComponent'') project_fs) = project_fs"
proof -
  let ?config = "\<lparr>own = [''lang'' \<mapsto> JStr ''js'', ''dir'' \<mapsto> JStr ''src/components'',
                         ''fileNameCase'' \<mapsto> JStr ''pascal''],
                  proto = Object_prototype\<rparr>"
  let ?opts = "\<lparr>opt_lang = Some (JStr ''js''), opt_dir = Some (JStr ''src/components''),
                opt_case = Some (JStr ''pascal'')\<rparr>"
  have n0: "args no_name = []"
    by (simp add: no_name_def)
  have n1: "componentName (only_name ''myComponent'') = Some ''myComponent''"
    by (simp add: componentName_def only_name_def)
  have n2: "componentName (only_name '''') = Some ''''"
    by (simp add: componentName_def only_name_def)
  have p1: "\<not> test_PascalCase ''myComponent''"
    by (simp add: test_PascalCase_def char_class_defs)
  have p2: "\<not> test_PascalCase ''''"
    by (simp add: test_PascalCase_def)
  have f: "\<And>v. formatComponentName v (Some (JStr ''pascal'')) = Inr v"
    by (simp add: formatComponentName_def)
  have tp: "templatePath ?opts = Inr ''./templates/js.jsx''"
    by (simp add: templatePath_def String_value_def)
  have cd: "\<And>v. componentDir ?opts (Some v) = Inr (''src/components/'' @ v)"
    by (simp add: componentDir_def String_value_def String_name_def)
  have 0: "main plain_env no_name project_fs =
       \<lparr>outcome = Exited 1, events = [CommanderError missing_argument_message],
        fs_after = project_fs\<rparr>"
    using invalid_name_no_filesystem_effect [of no_name plain_env project_fs,
        THEN conjunct2, THEN conjunct2, THEN conjunct2, THEN conjunct1, rule_format,
        of ?config "\<lambda>t. Inr t"]
      n0 getConfig_plain_env plain_env_prettifier
    by simp
  have 1: "main plain_env (only_name ''myComponent'') project_fs =
       \<lparr>outcome = Exited 0, events = [LogIntro, LogError not_PascalCase_message],
        fs_after = project_fs\<rparr>"
    using invalid_name_no_filesystem_effect [of "only_name ''myComponent''" plain_env project_fs,
        THEN conjunct2, THEN conjunct2, THEN conjunct2, THEN conjunct2, rule_format,
        of ?config "\<lambda>t. Inr t" "''myComponent''" "Some ''myComponent''" "''./templates/js.jsx''"
          "''src/components/'' @ ''myComponent''" "indexSource (Some ''myComponent'')"]
      n1 p1 getConfig_plain_env plain_env_prettifier
    by (simp add: plain_opts f tp cd)
  have 2: "main plain_env (only_name '''') project_fs =
       \<lparr>outcome = Exited 0, events = [LogIntro, LogError missing_name_message],
        fs_after = project_fs\<rparr>"
    using invalid_name_no_filesystem_effect [of "only_name ''''" plain_env project_fs,
        THEN conjunct2, THEN conjunct2, THEN conjunct2, THEN conjunct2, rule_format,
        of ?config "\<lambda>t. Inr t" "''''" "Some ''''" "''./templates/js.jsx''"
          "''src/components/'' @ ''''" "indexSource (Some '''')"]
      n2 p2 getConfig_plain_env plain_env_prettifier
    by (simp add: plain_opts f tp cd)
  have 3: "fs_after (main object_lang_env (only_name ''myComponent'') project_fs) = project_fs"
    using invalid_name_no_filesystem_effect [of "only_name ''myComponent''" object_lang_env
        project_fs, THEN conjunct1] n1 p1
    by simp
  show ?thesis
    by (intro conjI) (rule n0 0 n1 p1 1 n2 2 3)+
qed

text \<open>
  Claim C3 as stated fails: the script resolves the configuration before it looks at the
  name. With a global override file that is not JSON and the name \<^verbatim>\<open>myComponent\<close>,
  the run ends in the \<^verbatim>\<open>SyntaxError\<close> and reports no validation error.
\<close>

theorem invalid_name_config_failure_counterexample:
  "\<not> test_PascalCase ''myComponent''
   \<and> main broken_env (only_name ''myComponent'') project_fs =
       \<lparr>outcome = Crashed SyntaxError, events = [], fs_after = project_fs\<rparr>"
proof -
  have "getConfig broken_env = Inl SyntaxError"
    by (simp add: getConfig_def requireOptional_def readFilePromise_def broken_env_def plain_env_def
        global_config_path_def)
  then have "main broken_env (only_name ''myComponent'') project_fs =
       \<lparr>outcome = Crashed SyntaxError, events = [], fs_after = project_fs\<rparr>"
    by (simp add: main_def crashed_def)
  moreover have "\<not> test_PascalCase ''myComponent''"
    by (simp add: test_PascalCase_def char_class_defs)
  ultimately show ?thesis
    by simp
qed

text \<open>
  Claim C4. A run that reaches the check for an existing component (the configuration, the
  formatter, the paths and the index template obtained, the name valid), with the
  component directory existing at that moment, ends there with the message that the
  component already exists and the status of a normal exit. The file system is left as it
  is at the check: no file differs from the start; no directory differs from the start
  when the parent directory exists (as it must when the component directory exists in
  it), when the configured directory is not a string, or when the creation of the parent
  directory failed; otherwise the parent directory, just created, is the one difference.
  Here \<open>r\<close> is the outcome of the parent directory step, \<open>s1\<close> the file system it
  leaves and \<open>evs\<close> what it did.
\<close>

theorem existing_component_directory:
  assumes "getConfig e = Inr config"
    and "prettifier e = Inr prettify"
    and "componentName c = Some name"
    and "formatComponentName (Some name) (opt_case (program_opts config c)) = Inr fileName"
    and "templatePath (program_opts config c) = Inr template_path"
    and "componentDir (program_opts config c) fileName = Inr dir"
    and "prettify (indexSource fileName) = Inr indexTemplate"
    and "test_PascalCase name"
    and "createParentDirectoryIfNecessary e (opt_dir (program_opts config c)) s = r"
    and "(evs, s1) = (case r of Inr x \<Rightarrow> x | Inl err \<Rightarrow> ([], s))"
    and "existsSync s1 dir"
  shows "main e c s =
       \<lparr>outcome = Exited 0,
        events = LogIntro # evs @ [LogError (already_exists_message dir)],
        fs_after = s1\<rparr>
     \<and> files s1 = files s
     \<and> written evs = []
     \<and> ((\<exists>d. opt_dir (program_opts config c) = Some (JStr d) \<and> existsSync s d)
          \<or> (\<forall>d. opt_dir (program_opts config c) \<noteq> Some (JStr d))
          \<or> (\<exists>err. r = Inl err)
          \<longrightarrow> s1 = s \<and> evs = [])
     \<and> (s1 = s \<and> evs = []
          \<or> (\<exists>d. opt_dir (program_opts config c) = Some (JStr d) \<and> \<not> existsSync s d
                \<and> evs = [Mkdir d] \<and> s1 = s\<lparr>dirs := insert d (dirs s)\<rparr>))"
proof (cases r)
  case (Inl err)
  then have e: "evs = []" "s1 = s"
    using assms(10) by simp_all
  have 1: "main e c s =
       \<lparr>outcome = Exited 0,
        events = LogIntro # evs @ [LogError (already_exists_message dir)],
        fs_after = s1\<rparr>"
    using main_at_check_rejected [OF assms(1-8) assms(9) [unfolded Inl]] assms(11)
    by (simp add: e)
  show ?thesis
    using 1 by (simp add: e)
next
  case (Inr x)
  then have d: "x = (evs, s1)"
    using assms(10) by simp
  note cp = assms(9) [unfolded Inr d]
  have 1: "main e c s =
       \<lparr>outcome = Exited 0,
        events = LogIntro # evs @ [LogError (already_exists_message dir)],
        fs_after = s1\<rparr>"
    using main_at_check [OF assms(1-8) cp] assms(11) by simp
  have 2: "files s1 = files s"
    using cp by (rule createParent_files)
  have 3: "written evs = []"
    using cp by (rule createParent_written)
  have 4: "(\<exists>d. opt_dir (program_opts config c) = Some (JStr d) \<and> existsSync s d)
          \<or> (\<forall>d. opt_dir (program_opts config c) \<noteq> Some (JStr d))
          \<or> (\<exists>err. r = Inl err)
          \<longrightarrow> s1 = s \<and> evs = []"
    using createParent_cases [OF cp] Inr by auto
  have 5: "s1 = s \<and> evs = []
          \<or> (\<exists>d. opt_dir (program_opts config c) = Some (JStr d) \<and> \<not> existsSync s d
                \<and> evs = [Mkdir d] \<and> s1 = s\<lparr>dirs := insert d (dirs s)\<rparr>)"
    using createParent_cases [OF cp] by auto
  show ?thesis
    by (intro conjI) (rule 1 2 3 4 5)+
qed

lemma getConfig_numeric_dir_env:
  "getConfig numeric_dir_env
     = Inr \<lparr>own = [''lang'' \<mapsto> JStr ''js'', ''dir'' \<mapsto> JNum ''5'',
                  ''fileNameCase'' \<mapsto> JStr ''pascal''],
           proto = Object_prototype\<rparr>"
proof -
  let ?config = "Object_assign empty_object
          [Some defaults, None, Some (JObj [(''dir'', JNum ''5'')])]"
  have o: "own ?config
        = [''lang'' \<mapsto> JStr ''js'', ''dir'' \<mapsto> JNum ''5'', ''fileNameCase'' \<mapsto> JStr ''pascal'']"
    by (rule ext) (simp add: Object_assign_def defaults_def assign_property_def empty_object_def)
  have p: "proto ?config = Object_prototype"
    by (simp add: Object_assign_def defaults_def assign_property_def empty_object_def)
  have "?config = \<lparr>own = [''lang'' \<mapsto> JStr ''js'', ''dir'' \<mapsto> JNum ''5'',
                  ''fileNameCase'' \<mapsto> JStr ''pascal''],
           proto = Object_prototype\<rparr>"
    using o p by (rule js_object_eqI)
  then show ?thesis
    by (simp add: getConfig_def requireOptional_def readFilePromise_def numeric_dir_env_def
        plain_env_def global_config_path_def local_config_path_def)
qed

lemma numeric_opts:
  "program_opts \<lparr>own = [''lang'' \<mapsto> JStr ''js'', ''dir'' \<mapsto> JNum ''5'',
                        ''fileNameCase'' \<mapsto> JStr ''pascal''],
                 proto = Object_prototype\<rparr> (only_name n)
     = \<lparr>opt_lang = Some (JStr ''js''), opt_dir = Some (JNum ''5''),
        opt_case = Some (JStr ''pascal'')\<rparr>"
  by (simp add: program_opts_def Get_def only_name_def)

theorem existing_component_directory_witness:
  "existsSync project_with_Button ''src/components/Button''
   \<and> main plain_env (only_name ''Button'') project_with_Button =
       \<lparr>outcome = Exited 0,
        events = [LogIntro, LogError (already_exists_message ''src/components/Button'')],
        fs_after = project_with_Button\<rparr>
   \<and> existsSync numeric_with_Button ''5/Button''
   \<and> main numeric_dir_env (only_name ''Button'') numeric_with_Button =
       \<lparr>outcome = Exited 0,
        events = [LogIntro, LogError (already_exists_message ''5/Button'')],
        fs_after = numeric_with_Button\<rparr>"
proof -
  let ?config = "\<lparr>own = [''lang'' \<mapsto> JStr ''js'', ''dir'' \<mapsto> JStr ''src/components'',
                         ''fileNameCase'' \<mapsto> JStr ''pascal''],
                  proto = Object_prototype\<rparr>"
  let ?opts = "\<lparr>opt_lang = Some (JStr ''js''), opt_dir = Some (JStr ''src/components''),
                opt_case = Some (JStr ''pascal'')\<rparr>"
  let ?nconfig = "\<lparr>own = [''lang'' \<mapsto> JStr ''js'', ''dir'' \<mapsto> JNum ''5'',
                         ''fileNameCase'' \<mapsto> JStr ''pascal''],
                  proto = Object_prototype\<rparr>"
  let ?nopts = "\<lparr>opt_lang = Some (JStr ''js''), opt_dir = Some (JNum ''5''),
                opt_case = Some (JStr ''pascal'')\<rparr>"
  have 3: "componentName (only_name ''Button'') = Some ''Button''"
    by (simp add: componentName_def only_name_def)
  have 4: "formatComponentName (Some ''Button'') (opt_case (program_opts ?config (only_name ''Button'')))
           = Inr (Some ''Button'')"
    by (simp add: plain_opts formatComponentName_def)
  have 5: "templatePath (program_opts ?config (only_name ''Button'')) = Inr ''./templates/js.jsx''"
    by (simp add: plain_opts templatePath_def String_value_def)
  have 6: "componentDir (program_opts ?config (only_name ''Button'')) (Some ''Button'')
           = Inr ''src/components/Button''"
    by (simp add: plain_opts componentDir_def String_value_def String_name_def)
  have 7: "Inr (indexSource (Some ''Button'')) = (Inr (indexSource (Some ''Button'')) :: js_error + string)"
    by simp
  have 8: "test_PascalCase ''Button''"
    by (simp add: test_PascalCase_def char_class_defs)
  have 9: "createParentDirectoryIfNecessary plain_env
             (opt_dir (program_opts ?config (only_name ''Button''))) project_with_Button
           = Inr ([], project_with_Button)"
    by (simp add: plain_opts createParentDirectoryIfNecessary_def existsSync_def
        project_with_Button_def)
  have 10: "([], project_with_Button)
      = (case (Inr ([], project_with_Button) :: js_error + event list \<times> fs_state) of
           Inr x \<Rightarrow> x | Inl err \<Rightarrow> ([], project_with_Button))"
    by simp
  have 11: "existsSync project_with_Button ''src/components/Button''"
    by (simp add: existsSync_def project_with_Button_def)
  have a: "main plain_env (only_name ''Button'') project_with_Button =
       \<lparr>outcome = Exited 0,
        events = [LogIntro, LogError (already_exists_message ''src/components/Button'')],
        fs_after = project_with_Button\<rparr>"
    using existing_component_directory
      [OF getConfig_plain_env plain_env_prettifier 3 4 5 6 7 8 9 10 11, THEN conjunct1]
    by simp
  have n4: "formatComponentName (Some ''Button'') (opt_case (program_opts ?nconfig (only_name ''Button'')))
           = Inr (Some ''Button'')"
    by (simp add: numeric_opts formatComponentName_def)
  have n5: "templatePath (program_opts ?nconfig (only_name ''Button'')) = Inr ''./templates/js.jsx''"
    by (simp add: numeric_opts templatePath_def String_value_def)
  have n6: "componentDir (program_opts ?nconfig (only_name ''Button'')) (Some ''Button'')
           = Inr ''5/Button''"
    by (simp add: numeric_opts componentDir_def String_value_def String_name_def)
  have np: "prettifier numeric_dir_env = Inr (\<lambda>t. Inr t)"
    by (simp add: numeric_dir_env_def plain_env_def)
  have n9: "createParentDirectoryIfNecessary numeric_dir_env
             (opt_dir (program_opts ?nconfig (only_name ''Button''))) numeric_with_Button
           = Inl TypeError"
    by (simp add: numeric_opts createParentDirectoryIfNecessary_def)
  have n10: "([], numeric_with_Button)
      = (case (Inl TypeError :: js_error + event list \<times> fs_state) of
           Inr x \<Rightarrow> x | Inl err \<Rightarrow> ([], numeric_with_Button))"
    by simp
  have n11: "existsSync numeric_with_Button ''5/Button''"
    by (simp add: existsSync_def numeric_with_Button_def)
  have b: "main numeric_dir_env (only_name ''Button'') numeric_with_Button =
       \<lparr>outcome = Exited 0,
        events = [LogIntro, LogError (already_exists_message ''5/Button'')],
        fs_after = numeric_with_Button\<rparr>"
    using existing_component_directory
      [OF getConfig_numeric_dir_env np 3 n4 n5 n6 7 8 n9 n10 n11, THEN conjunct1]
    by simp
  show ?thesis
    by (intro conjI) (rule 11 a n11 b)+
qed

lemma replace_before_irrelevant:
  "CHR ''$'' \<notin> set n \<Longrightarrow> replace_COMPONENT_NAME n b t = replace_COMPONENT_NAME n b' t"
proof (induction n b t arbitrary: b' rule: replace_COMPONENT_NAME.induct)
  case (1 replacement before)
  show ?case by simp
next
  case (2 replacement before c cs)
  show ?case
  proof (cases "prefix COMPONENT_NAME (c # cs)")
    case True
    then show ?thesis
      using 2(1) [OF True 2(3), of "b' @ COMPONENT_NAME"] GetSubstitution_literal [OF 2(3)]
      by simp
  next
    case False
    then show ?thesis
      using 2(2) [OF False 2(3), of "b' @ [c]"] by simp
  qed
qed

lemma render_no_occurrence:
  "\<not> sublist COMPONENT_NAME template \<Longrightarrow> render template name = template"
  by (simp add: render_def replace_no_occurrence)

lemma render_first_occurrence:
  assumes "CHR ''$'' \<notin> set name"
    and "\<not> sublist COMPONENT_NAME (pre @ butlast COMPONENT_NAME)"
  shows "render (pre @ COMPONENT_NAME @ post) name = pre @ name @ render post name"
  using replace_first_occurrence [OF assms, of "[]" post]
    replace_before_irrelevant [OF assms(1), of "pre @ COMPONENT_NAME" post "[]"]
  by (simp add: render_def)

lemma render_without_underscore:
  assumes "CHR ''$'' \<notin> set name" and "CHR ''_'' \<notin> set name"
    and "CHR ''_'' \<notin> set (render template [])"
  shows "\<not> sublist COMPONENT_NAME (render template name)"
proof
  assume "sublist COMPONENT_NAME (render template name)"
  then have "set COMPONENT_NAME \<subseteq> set (render template name)"
    by (rule set_mono_sublist)
  then have "CHR ''_'' \<in> set (render template name)"
    using underscore_in_COMPONENT_NAME by blast
  moreover have "set (render template name) \<subseteq> set name \<union> set (render template [])"
    unfolding render_def using assms(1) by (rule set_replace_subset)
  ultimately show False
    using assms(2) assms(3) by blast
qed

lemma chain_Created_component_file:
  assumes "outcome (chain e prettify opts template_path dir name fileName indexTemplate s) = Created"
  shows "\<exists>template body.
      readFilePromiseRelative e template_path = Inr template
    \<and> prettify (render template name) = Inr body
    \<and> files (fs_after (chain e prettify opts template_path dir name fileName indexTemplate s))
        (filePath opts dir fileName) = Some body"
proof -
  obtain s1 template body s2 indexText s3 where
    ch: "fs_mkdir e dir s = Inr s1"
      "readFilePromiseRelative e template_path = Inr template"
      "prettify (render template name) = Inr body"
      "fs_writeFile e (filePath opts dir fileName) body s1 = Inr s2"
      "prettify indexTemplate = Inr indexText"
      "fs_writeFile e (indexPath opts dir) indexText s2 = Inr s3"
    using chain_Created_D [OF assms] by blast
  have "files s3 (filePath opts dir fileName) = Some body"
    using ch(4) ch(6) filePath_neq_indexPath [of opts dir fileName]
    by (auto simp: fs_writeFile_Inr)
  then have "files (fs_after (chain e prettify opts template_path dir name fileName indexTemplate s))
        (filePath opts dir fileName) = Some body"
    by (simp add: chain_succeeds [where prettify = prettify and name = name, OF ch])
  then show ?thesis
    using ch(2) ch(3) by blast
qed

text \<open>
  Claim C5, as amended. For a PascalCase name, rendering is one pass over the template:
  a template without the token is returned as it is; the first occurrence of the token is
  replaced by the name and the rest of the template is rendered in the same way (the
  output is not scanned again); when the template has no underscore outside the replaced
  occurrences, the output contains no occurrence of the token. In the chain the name
  that is substituted is the one typed, not the file name: the component file of a
  completed chain holds the formatted rendering of the template with \<open>name\<close>.
\<close>

theorem render_replaces_in_one_pass:
  assumes "test_PascalCase name"
  shows "(\<not> sublist COMPONENT_NAME template \<longrightarrow> render template name = template)
     \<and> (\<not> sublist COMPONENT_NAME (pre @ butlast COMPONENT_NAME) \<longrightarrow>
           render (pre @ COMPONENT_NAME @ post) name = pre @ name @ render post name)
     \<and> (CHR ''_'' \<notin> set (render template []) \<longrightarrow>
           \<not> sublist COMPONENT_NAME (render template name))
     \<and> (outcome (chain e prettify opts template_path dir name fileName indexTemplate s) = Created \<longrightarrow>
           (\<exists>tmpl body.
               readFilePromiseRelative e template_path = Inr tmpl
             \<and> prettify (render tmpl name) = Inr body
             \<and> files (fs_after (chain e prettify opts template_path dir name fileName
                                   indexTemplate s))
                 (filePath opts dir fileName) = Some body))"
proof -
  note c = PascalCase_chars [OF assms]
  have 1: "\<not> sublist COMPONENT_NAME template \<longrightarrow> render template name = template"
    by (simp add: render_no_occurrence)
  have 2: "\<not> sublist COMPONENT_NAME (pre @ butlast COMPONENT_NAME) \<longrightarrow>
           render (pre @ COMPONENT_NAME @ post) name = pre @ name @ render post name"
    using c render_first_occurrence by blast
  have 3: "CHR ''_'' \<notin> set (render template []) \<longrightarrow>
           \<not> sublist COMPONENT_NAME (render template name)"
    using c render_without_underscore by blast
  have 4: "outcome (chain e prettify opts template_path dir name fileName indexTemplate s) = Created \<longrightarrow>
           (\<exists>tmpl body.
               readFilePromiseRelative e template_path = Inr tmpl
             \<and> prettify (render tmpl name) = Inr body
             \<and> files (fs_after (chain e prettify opts template_path dir name fileName
                                   indexTemplate s))
                 (filePath opts dir fileName) = Some body)"
    using chain_Created_component_file by blast
  show ?thesis
    using 1 2 3 4 by blast
qed

theorem render_replaces_in_one_pass_witness:
  "test_PascalCase ''NavBar''
   \<and> render ''export {};'' ''NavBar'' = ''export {};''
   \<and> render (''function '' @ COMPONENT_NAME @ ''() {}'') ''NavBar'' = ''function NavBar() {}''
   \<and> \<not> sublist COMPONENT_NAME (render js_template ''NavBar'')
   \<and> files (fs_after (main plain_env (kebab_name ''NavBar'') project_fs))
        ''src/components/nav-bar/nav-bar.jsx''
      = Some ''function NavBar() {}\<newline>export default NavBar;\<newline>''"
proof -
  let ?opts = "\<lparr>opt_lang = Some (JStr ''js''), opt_dir = Some (JStr ''src/components''),
                opt_case = Some (JStr ''kebab'')\<rparr>"
  let ?idx = "''export * from './nav-bar';\<newline>''"
  let ?chain = "chain plain_env (\<lambda>t. Inr t) ?opts ''./templates/js.jsx''
                  ''src/components/nav-bar'' ''NavBar'' (Some ''nav-bar'') ?idx project_fs"
  note inst = render_replaces_in_one_pass [of "''NavBar''"]
  have p: "test_PascalCase ''NavBar''"
    by (simp add: test_PascalCase_def char_class_defs)
  have a: "\<not> sublist COMPONENT_NAME ''export {};''"
    by (simp add: COMPONENT_NAME_def sublist_Cons_right)
  have 1: "render ''export {};'' ''NavBar'' = ''export {};''"
    using inst [OF p, of "''export {};''", THEN conjunct1] a by simp
  have b: "\<not> sublist COMPONENT_NAME (''function '' @ butlast COMPONENT_NAME)"
    by (simp add: COMPONENT_NAME_def sublist_Cons_right)
  have e: "render ''() {}'' ''NavBar'' = ''() {}''"
    by (simp add: render_def COMPONENT_NAME_def)
  have 2: "render (''function '' @ COMPONENT_NAME @ ''() {}'') ''NavBar'' = ''function NavBar() {}''"
    using inst [OF p, of _ "''function ''" "''() {}''", THEN conjunct2, THEN conjunct1] b e
    by simp
  have u: "CHR ''_'' \<notin> set (render js_template [])"
    by (simp add: render_def js_template_def COMPONENT_NAME_def)
  have 3: "\<not> sublist COMPONENT_NAME (render js_template ''NavBar'')"
    using inst [OF p, of js_template, THEN conjunct2, THEN conjunct2, THEN conjunct1] u by simp
  have run: "main plain_env (kebab_name ''NavBar'') project_fs =
      ?chain\<lparr>events := LogIntro # events ?chain\<rparr>"
    unfolding main_def getConfig_plain_env
    by (simp add: script_defs example_defs)
  have cr: "outcome ?chain = Created"
    by (simp add: script_defs example_defs)
  obtain tmpl body where
    t: "readFilePromiseRelative plain_env ''./templates/js.jsx'' = Inr tmpl"
    and r: "Inr (render tmpl ''NavBar'') = (Inr body :: js_error + string)"
    and f: "files (fs_after ?chain) (filePath ?opts ''src/components/nav-bar'' (Some ''nav-bar''))
             = Some body"
    using inst [OF p, of _ _ _ plain_env "\<lambda>t. Inr t" ?opts "''./templates/js.jsx''"
        "''src/components/nav-bar''" "Some ''nav-bar''" ?idx project_fs,
        THEN conjunct2, THEN conjunct2, THEN conjunct2] cr
    by blast
  have "tmpl = js_template"
    using t plain_env_template by simp
  then have body: "body = ''function NavBar() {}\<newline>export default NavBar;\<newline>''"
    using r render_NavBar by simp
  have fp: "filePath ?opts ''src/components/nav-bar'' (Some ''nav-bar'')
              = ''src/components/nav-bar/nav-bar.jsx''"
    by (simp add: filePath_def fileExtension_def String_name_def)
  have 4: "files (fs_after (main plain_env (kebab_name ''NavBar'') project_fs))
        ''src/components/nav-bar/nav-bar.jsx''
      = Some ''function NavBar() {}\<newline>export default NavBar;\<newline>''"
    using f unfolding run fp body by simp
  show ?thesis
    by (intro conjI) (rule p 1 2 3 4)+
qed

text \<open>
  Claim C5 as stated fails: with the PascalCase name \<^verbatim>\<open>COMPONENT\<close>, the template
  \<^verbatim>\<open>COMPONENT_NAME_NAME\<close> renders to \<^verbatim>\<open>COMPONENT_NAME\<close>, which is the token.
\<close>

theorem render_leaves_token_counterexample:
  "test_PascalCase ''COMPONENT''
   \<and> render ''COMPONENT_NAME_NAME'' ''COMPONENT'' = ''COMPONENT_NAME''
   \<and> sublist COMPONENT_NAME (render ''COMPONENT_NAME_NAME'' ''COMPONENT'')"
proof -
  have p: "test_PascalCase ''COMPONENT''"
    by (simp add: test_PascalCase_def char_class_defs)
  have r: "render ''COMPONENT_NAME_NAME'' ''COMPONENT'' = ''COMPONENT_NAME''"
    by (simp add: render_def COMPONENT_NAME_def)
  have s: "sublist COMPONENT_NAME (render ''COMPONENT_NAME_NAME'' ''COMPONENT'')"
    unfolding r by (simp add: COMPONENT_NAME_def)
  show ?thesis
    by (intro conjI) (rule p r s)+
qed









end
